theory Spec2Isabelle
  imports Main "HOL-Library.Word"
begin

section \<open>Values exchanged with the ledger node and the vault\<close>

text \<open>
  A \<open>Uint8Array\<close> / \<open>Buffer\<close> is a list of bytes. JavaScript \<open>bigint\<close> values are
  integers. JavaScript \<open>number\<close> values that count rounds, fees and micro-units are
  integral and are modelled as integers; where the code converts a bigint with
  \<open>Number(...)\<close> or computes with numbers, the result is rounded as a double rounds it
  (\<open>js_number\<close> below).
\<close>

type_synonym bytes = "8 word list"

datatype error =
    VaultException int              \<comment> \<open>\<open>HttpErrorByCode[status]('VaultException')\<close>\<close>
  | NodeException int               \<comment> \<open>\<open>HttpErrorByCode[status]('NodeException: ...')\<close>, 500 without a status\<close>
  | BadRequest string               \<comment> \<open>\<open>HttpErrorByCode[400](...)\<close>\<close>
  | TransactionRejected string      \<comment> \<open>\<open>Error('Transaction Rejected: ' + pool-error)\<close>\<close>
  | InvalidUsers                    \<comment> \<open>\<open>Error('Invalid users')\<close>\<close>
  | InvalidSender                   \<comment> \<open>\<open>Error('Invalid sender')\<close>\<close>
  | EmptyGroupError                 \<comment> \<open>the encoder's refusal of an empty group\<close>
  | InvalidFieldError               \<comment> \<open>the transaction builder's refusal of a field\<close>
  | DecodeError                     \<comment> \<open>the encoder's refusal of bytes that are no transaction\<close>
  | TypeError                       \<comment> \<open>a property read on \<open>undefined\<close>\<close>
  | FailedFromAddress string error  \<comment> \<open>\<open>Error('Failed to get from address for user ...')\<close>\<close>
  | FailedSign string error         \<comment> \<open>\<open>Error('Failed to sign transaction as user ...')\<close>\<close>

text \<open>\<open>TruncatedSuggestedParamsResponse\<close>.\<close>

record suggestedParams =
  lastRound :: int
  minFee :: int

text \<open>\<open>TruncatedAccountResponse\<close>: balance, minimum balance and the asset holdings.\<close>

record accountResponse =
  acc_amount :: int
  acc_minBalance :: int
  acc_assets :: "(int \<times> int) list"

text \<open>
  The answer of \<open>v2/transactions/pending/{txId}\<close>; both fields may be missing, and the
  code tests them for JavaScript truthiness.
\<close>

record pendingInfo =
  confirmed_round :: "int option"
  pool_error :: "string option"

definition truthy_num :: "int option \<Rightarrow> bool" where
  "truthy_num v = (case v of None \<Rightarrow> False | Some n \<Rightarrow> n \<noteq> 0)"

definition truthy_str :: "string option \<Rightarrow> bool" where
  "truthy_str v = (case v of None \<Rightarrow> False | Some s \<Rightarrow> s \<noteq> [])"

section \<open>JavaScript numbers\<close>

text \<open>
  A JavaScript number is an IEEE double: an integer of magnitude below \<open>2^53\<close> is held
  exactly, a larger one is rounded to the nearest integer with a 53-bit significand, ties
  to the even significand. \<open>excess_bits a\<close> counts the low bits of \<open>a\<close> that do not fit.
  Overflow to \<open>Infinity\<close> (magnitudes of \<open>2^1024\<close> and more) is not modelled.
\<close>

function excess_bits :: "nat \<Rightarrow> nat" where
  "excess_bits a = (if a < 2 ^ 53 then 0 else Suc (excess_bits (a div 2)))"
  by pat_completeness auto
termination
  by (relation "measure (\<lambda>a. a)") auto

text \<open>\<open>Number(x)\<close> for a bigint \<open>x\<close>, and the rounding of every result computed on numbers.\<close>

definition js_number :: "int \<Rightarrow> int" where
  "js_number x =
     (let a = nat \<bar>x\<bar>; e = excess_bits a; q = a div 2 ^ e; r = a mod 2 ^ e;
          q' = (if 2 ^ e < 2 * r \<or> (2 * r = 2 ^ e \<and> odd q) then q + 1 else q)
      in sgn x * int (q' * 2 ^ e))"

text \<open>\<open>a + b\<close> and \<open>a - b\<close> on numbers.\<close>

definition js_add :: "int \<Rightarrow> int \<Rightarrow> int" where
  "js_add a b = js_number (a + b)"

definition js_sub :: "int \<Rightarrow> int \<Rightarrow> int" where
  "js_sub a b = js_number (a - b)"

section \<open>Transactions\<close>

text \<open>
  The transaction object that the library's builders fill in and its encoder serialises.
  Addresses are kept as the address strings handed to the builders. A field the builder
  was never asked to set is absent.
\<close>

datatype txType = Pay | Axfer | Acfg

record assetParams =
  p_total :: "int option"
  p_decimals :: "int option"
  p_defaultFrozen :: "bool option"
  p_unitName :: "string option"
  p_assetName :: "string option"
  p_manager :: "string option"
  p_reserve :: "string option"
  p_freeze :: "string option"
  p_clawback :: "string option"
  p_url :: "string option"

record txn =
  t_type :: txType
  t_gen :: string
  t_gh :: string
  t_snd :: string
  t_fee :: int
  t_fv :: int
  t_lv :: int
  t_rcv :: "string option"
  t_amt :: "int option"
  t_xaid :: "int option"
  t_arcv :: "string option"
  t_asnd :: "string option"
  t_aamt :: "int option"
  t_apar :: "assetParams option"
  t_note :: "string option"
  t_lx :: "bytes option"
  t_grp :: "bytes option"

section \<open>Effects: the trace of calls and the answers of the outside world\<close>

text \<open>
  Every call that leaves the process is recorded, in order, as an event: the vault calls
  of \<open>VaultService\<close>, the node requests of \<open>ChainService.makeAlgoNodeRequest\<close>, and the
  parameter query of the algosdk client. \<open>Crafted\<close> records that a crafting method of
  \<open>ChainService\<close> (or the algosdk builder in \<open>sendGroup\<close>) has produced an unsigned
  transaction.
\<close>

datatype event =
    GetUserPublicKey string
  | GetManagerPublicKey
  | GetNamedManagerPublicKey string
  | SignAsUser string bytes
  | SignAsManager bytes
  | SignAsNamedManager string bytes
  | NodeParams                      \<comment> \<open>GET \<open>v2/transactions/params\<close>\<close>
  | NodeAccount string              \<comment> \<open>GET \<open>v2/accounts/{address}\<close>\<close>
  | NodeAccountAsset string int     \<comment> \<open>GET \<open>v2/accounts/{address}/assets/{id}/\<close>\<close>
  | NodePending string              \<comment> \<open>GET \<open>v2/transactions/pending/{txId}\<close>\<close>
  | NodeWaitBlock int               \<comment> \<open>GET \<open>v2/status/wait-for-block-after/{round}\<close>\<close>
  | NodePost bytes                  \<comment> \<open>POST \<open>v2/transactions\<close>\<close>
  | SdkParams                       \<comment> \<open>\<open>algodClient.getTransactionParams().do()\<close>\<close>
  | Crafted txn

text \<open>
  The outside world answers each call with an error or a value. The answer to a pending
  query may change from one polling round to the next, so it is indexed by the round the
  polling loop is in; the vault token is passed through unchanged by every method and is
  left out.
\<close>

record world =
  user_key :: "string \<Rightarrow> error + bytes"
  manager_key :: "error + bytes"
  named_manager_key :: "string \<Rightarrow> error + bytes"
  user_signature :: "string \<Rightarrow> bytes \<Rightarrow> error + string"
  manager_signature :: "bytes \<Rightarrow> error + string"
  named_manager_signature :: "string \<Rightarrow> bytes \<Rightarrow> error + string"
  node_params :: "error + suggestedParams"
  node_account :: "string \<Rightarrow> error + accountResponse"
  node_account_asset :: "string \<Rightarrow> int \<Rightarrow> error + unit"
  node_pending :: "string \<Rightarrow> int \<Rightarrow> error + pendingInfo"
  node_wait_block :: "int \<Rightarrow> error + unit"
  node_post :: "bytes \<Rightarrow> error + string"
  sdk_params :: "error + suggestedParams"

type_synonym 'a io = "event list \<Rightarrow> (error + 'a) \<times> event list"

definition io_return :: "'a \<Rightarrow> 'a io" where
  "io_return x = (\<lambda>tr. (Inr x, tr))"

definition io_throw :: "error \<Rightarrow> 'a io" where
  "io_throw e = (\<lambda>tr. (Inl e, tr))"

definition io_bind :: "'a io \<Rightarrow> ('a \<Rightarrow> 'b io) \<Rightarrow> 'b io" where
  "io_bind m f = (\<lambda>tr. case m tr of (Inl e, tr') \<Rightarrow> (Inl e, tr') | (Inr x, tr') \<Rightarrow> f x tr')"

definition io_catch :: "'a io \<Rightarrow> (error \<Rightarrow> 'a io) \<Rightarrow> 'a io" where
  "io_catch m h = (\<lambda>tr. case m tr of (Inl e, tr') \<Rightarrow> h e tr' | (Inr x, tr') \<Rightarrow> (Inr x, tr'))"

definition io_call :: "event \<Rightarrow> error + 'a \<Rightarrow> 'a io" where
  "io_call ev answer = (\<lambda>tr. (answer, tr @ [ev]))"

section \<open>ChainService: node queries\<close>

definition getSuggestedParams :: "world \<Rightarrow> suggestedParams io" where
  "getSuggestedParams w = io_call NodeParams (node_params w)"

definition getAccountDetail :: "world \<Rightarrow> string \<Rightarrow> accountResponse io" where
  "getAccountDetail w public_address = io_call (NodeAccount public_address) (node_account w public_address)"

definition getAccountBalance :: "world \<Rightarrow> string \<Rightarrow> int io" where
  "getAccountBalance w public_address =
     io_bind (io_call (NodeAccount public_address) (node_account w public_address))
       (\<lambda>response. io_return (acc_amount response))"

text \<open>\<open>getAccountAsset\<close>: a 404 of the node means the account has no holding (\<open>null\<close>).\<close>

definition getAccountAsset :: "world \<Rightarrow> string \<Rightarrow> int \<Rightarrow> unit option io" where
  "getAccountAsset w public_address asset_id =
     io_catch
       (io_bind (io_call (NodeAccountAsset public_address asset_id)
                   (node_account_asset w public_address asset_id))
          (\<lambda>_. io_return (Some ())))
       (\<lambda>err. case err of
                 NodeException status \<Rightarrow>
                   if status \<noteq> 0 then (if status = 404 then io_return None else io_throw err)
                   else io_throw err
               | _ \<Rightarrow> io_throw err)"

section \<open>ChainService: confirmation polling and submission\<close>

text \<open>
  The body of the \<open>try\<close>/\<open>catch\<close> inside the polling loop. \<open>Some info\<close> is the
  \<open>return pendingInfo\<close>; \<open>None\<close> means the loop goes on. The local flag \<open>poolError\<close> is
  true exactly on the path that throws the rejection, which is therefore the only error
  the \<open>catch\<close> rethrows.
\<close>

definition pollPending :: "world \<Rightarrow> string \<Rightarrow> int \<Rightarrow> pendingInfo option io" where
  "pollPending w txId currentRound =
     (\<lambda>tr. case io_call (NodePending txId) (node_pending w txId currentRound) tr of
        (Inr pendingInfo, tr') \<Rightarrow>
           if truthy_num (confirmed_round pendingInfo) then (Inr (Some pendingInfo), tr')
           else if truthy_str (pool_error pendingInfo)
             then (Inl (TransactionRejected (the (pool_error pendingInfo))), tr')
           else (Inr None, tr')
      | (Inl err, tr') \<Rightarrow> (Inr None, tr'))"

definition waitForBlockAfter :: "world \<Rightarrow> int \<Rightarrow> unit io" where
  "waitForBlockAfter w currentRound = io_call (NodeWaitBlock currentRound) (node_wait_block w currentRound)"

text \<open>
  The \<open>while (currentRound < stopRound)\<close> loop of \<open>waitConfirmation\<close>. Falling out of the
  loop returns \<open>undefined\<close>, here \<open>None\<close>.
\<close>

function waitLoop :: "world \<Rightarrow> string \<Rightarrow> int \<Rightarrow> int \<Rightarrow> pendingInfo option io" where
  "waitLoop w txId currentRound stopRound tr =
     (if currentRound < stopRound then
        (case pollPending w txId currentRound tr of
           (Inl err, tr1) \<Rightarrow> (Inl err, tr1)
         | (Inr (Some pendingInfo), tr1) \<Rightarrow> (Inr (Some pendingInfo), tr1)
         | (Inr None, tr1) \<Rightarrow>
             (case waitForBlockAfter w currentRound tr1 of
                (Inl err, tr2) \<Rightarrow> (Inl err, tr2)
              | (Inr _, tr2) \<Rightarrow> waitLoop w txId (currentRound + 1) stopRound tr2))
      else (Inr None, tr))"
  by pat_completeness auto
termination
  by (relation "measure (\<lambda>(w, txId, currentRound, stopRound, tr). nat (stopRound - currentRound))") auto

definition waitConfirmation :: "world \<Rightarrow> string \<Rightarrow> int \<Rightarrow> pendingInfo option io" where
  "waitConfirmation w txId waitRounds =
     io_bind (getSuggestedParams w)
       (\<lambda>sp. let startRound = lastRound sp; stopRound = startRound + waitRounds
             in waitLoop w txId startRound stopRound)"

text \<open>\<open>TruncatedPostTransactionsResponse\<close>.\<close>

record postTransactionsResponse =
  txid :: string

datatype txnOrTxns = One bytes | Many "bytes list"

text \<open>
  \<open>submitTransaction\<close>: one POST of the transaction or of the concatenated group, then
  \<open>waitConfirmation\<close> with its default of 20 rounds, whose result is not looked at.
\<close>

definition submitTransaction :: "world \<Rightarrow> txnOrTxns \<Rightarrow> postTransactionsResponse io" where
  "submitTransaction w txnOrtxns =
     (let data = (case txnOrtxns of One txn \<Rightarrow> txn | Many txns \<Rightarrow> concat txns) in
      io_bind (io_call (NodePost data) (node_post w data))
        (\<lambda>response. let postTransactionResponse = \<lparr>txid = response\<rparr> in
           io_bind (waitConfirmation w (txid postTransactionResponse) 20)
             (\<lambda>_. io_return postTransactionResponse)))"

section \<open>The external transaction library\<close>

text \<open>
  The functions of \<open>AlgorandEncoder\<close>, of the crafter and of \<open>Buffer\<close> that the services
  call are parameters of the model: the address encoding of a public key, the canonical
  encoding of a transaction and its inverse, the hash used for group ids, the attachment
  of a signature, and base64.
\<close>

record lib =
  encodeAddress :: "bytes \<Rightarrow> string"
  encodeTransaction :: "txn \<Rightarrow> bytes"
  decodeTransaction :: "bytes \<Rightarrow> error + txn"
  groupHash :: "bytes \<Rightarrow> bytes"
  addSignature :: "bytes \<Rightarrow> bytes \<Rightarrow> bytes"
  base64_decode :: "string \<Rightarrow> bytes"
  base64_encode :: "bytes \<Rightarrow> string"

text \<open>The values read from \<open>ConfigService\<close>.\<close>

record config =
  GENESIS_ID :: string
  GENESIS_HASH :: string

definition io_lift :: "error + 'a \<Rightarrow> 'a io" where
  "io_lift r = (\<lambda>tr. (r, tr))"

fun mapE :: "('a \<Rightarrow> error + 'b) \<Rightarrow> 'a list \<Rightarrow> error + 'b list" where
  "mapE f [] = Inr []"
| "mapE f (x # xs) =
     (case f x of Inl e \<Rightarrow> Inl e
      | Inr y \<Rightarrow> (case mapE f xs of Inl e \<Rightarrow> Inl e | Inr ys \<Rightarrow> Inr (y # ys)))"

definition clearGroup :: "lib \<Rightarrow> bytes \<Rightarrow> error + bytes" where
  "clearGroup l txn =
     (case decodeTransaction l txn of Inl e \<Rightarrow> Inl e
      | Inr decodedTx \<Rightarrow> Inr (encodeTransaction l (decodedTx\<lparr>t_grp := None\<rparr>)))"

text \<open>
  Modelled from the spec: \<open>AlgorandEncoder.computeGroupId\<close> belongs to the external
  library and is not part of the sources. The spec: the group id is a hash over the
  concatenation of each transaction's canonical encoding with its group field cleared,
  in the given order; empty input fails with \<open>EmptyGroupError\<close>.
\<close>

definition computeGroupId :: "lib \<Rightarrow> bytes list \<Rightarrow> error + bytes" where
  "computeGroupId l txns =
     (if txns = [] then Inl EmptyGroupError
      else (case mapE (clearGroup l) txns of Inl e \<Rightarrow> Inl e
            | Inr cleared \<Rightarrow> Inr (groupHash l (concat cleared))))"

text \<open>
  Modelled from the spec: \<open>AssetTransferTxBuilder.addLease\<close> belongs to the external
  library and is not part of the sources. The spec: a lease that is present must be
  exactly 32 bytes after decoding, or the field is refused.
\<close>

definition addLease :: "bytes \<Rightarrow> txn \<Rightarrow> error + txn" where
  "addLease lease tx = (if length lease = 32 then Inr (tx\<lparr>t_lx := Some lease\<rparr>) else Inl InvalidFieldError)"

section \<open>ChainService: grouping and crafting\<close>

definition parseLease :: "lib \<Rightarrow> string \<Rightarrow> bytes" where
  "parseLease l lease = base64_decode l lease"

text \<open>The \<open>for\<close> loop of \<open>setGroupID\<close>, with \<open>grouped\<close> as its accumulator.\<close>

fun setGroupID_loop :: "lib \<Rightarrow> bytes \<Rightarrow> bytes list \<Rightarrow> bytes list \<Rightarrow> error + bytes list" where
  "setGroupID_loop l groupId [] grouped = Inr grouped"
| "setGroupID_loop l groupId (txn # rest) grouped =
     (case decodeTransaction l txn of Inl e \<Rightarrow> Inl e
      | Inr decodedTx \<Rightarrow>
          setGroupID_loop l groupId rest
            (grouped @ [encodeTransaction l (decodedTx\<lparr>t_grp := Some groupId\<rparr>)]))"

definition setGroupID :: "lib \<Rightarrow> bytes list \<Rightarrow> error + bytes list" where
  "setGroupID l txns =
     (case computeGroupId l txns of Inl e \<Rightarrow> Inl e
      | Inr groupId \<Rightarrow> setGroupID_loop l groupId txns [])"

text \<open>\<open>builder.get().encode()\<close>: the finished transaction leaves the crafter encoded.\<close>

definition encoded :: "lib \<Rightarrow> txn \<Rightarrow> bytes io" where
  "encoded l tx = (\<lambda>tr. (Inr (encodeTransaction l tx), tr @ [Crafted tx]))"

definition paramsOr :: "world \<Rightarrow> suggestedParams option \<Rightarrow> suggestedParams io" where
  "paramsOr w sp = (case sp of Some p \<Rightarrow> io_return p | None \<Rightarrow> getSuggestedParams w)"

definition blankTx :: "config \<Rightarrow> txType \<Rightarrow> string \<Rightarrow> suggestedParams \<Rightarrow> txn" where
  "blankTx cfg ty from suggested_params =
     \<lparr>t_type = ty, t_gen = GENESIS_ID cfg, t_gh = GENESIS_HASH cfg, t_snd = from,
      t_fee = minFee suggested_params, t_fv = lastRound suggested_params,
      t_lv = lastRound suggested_params + 1000,
      t_rcv = None, t_amt = None, t_xaid = None, t_arcv = None, t_asnd = None, t_aamt = None,
      t_apar = None, t_note = None, t_lx = None, t_grp = None\<rparr>"

record createAssetOptions =
  total :: int
  decimals :: int
  defaultFrozen :: bool
  unitName :: string
  assetName :: string
  url :: string
  managerAddress :: "string option"
  reserveAddress :: "string option"
  freezeAddress :: "string option"
  clawbackAddress :: "string option"

definition craftAssetCreateTx ::
  "world \<Rightarrow> config \<Rightarrow> lib \<Rightarrow> string \<Rightarrow> createAssetOptions \<Rightarrow> suggestedParams option \<Rightarrow> bytes io" where
  "craftAssetCreateTx w cfg l creatorAddress options sp =
     io_bind (paramsOr w sp) (\<lambda>suggested_params.
       let params =
         \<lparr>p_total = (if total options \<noteq> 0 then Some (total options) else None),
          p_decimals = (if decimals options \<noteq> 0 then Some (decimals options) else None),
          p_defaultFrozen = (if defaultFrozen options then Some True else None),
          p_unitName = (if unitName options \<noteq> [] then Some (unitName options) else None),
          p_assetName = (if assetName options \<noteq> [] then Some (assetName options) else None),
          p_manager = (if truthy_str (managerAddress options) then managerAddress options else None),
          p_reserve = (if truthy_str (reserveAddress options) then reserveAddress options else None),
          p_freeze = (if truthy_str (freezeAddress options) then freezeAddress options else None),
          p_clawback = (if truthy_str (clawbackAddress options) then clawbackAddress options else None),
          p_url = (if url options \<noteq> [] then Some (url options) else None)\<rparr>
       in encoded l ((blankTx cfg Acfg creatorAddress suggested_params)\<lparr>t_apar := Some params\<rparr>))"

definition craftPaymentTx ::
  "world \<Rightarrow> config \<Rightarrow> lib \<Rightarrow> string \<Rightarrow> string \<Rightarrow> int \<Rightarrow> suggestedParams option \<Rightarrow> bytes io" where
  "craftPaymentTx w cfg l from to amount sp =
     io_bind (paramsOr w sp) (\<lambda>suggested_params.
       encoded l ((blankTx cfg Pay from suggested_params)\<lparr>t_rcv := Some to, t_amt := Some amount\<rparr>))"

text \<open>
  The optional lease of the asset crafters: \<open>if (lease) { try { builder.addLease(
  this.parseLease(lease)) } catch { throw 400 } }\<close>.
\<close>

definition withLease :: "lib \<Rightarrow> string option \<Rightarrow> txn \<Rightarrow> txn io" where
  "withLease l lease tx =
     (if truthy_str lease then
        (case addLease (parseLease l (the lease)) tx of
           Inl e \<Rightarrow> io_throw (BadRequest ''Invalid lease format'')
         | Inr tx' \<Rightarrow> io_return tx')
      else io_return tx)"

definition craftAssetTransferTx ::
  "world \<Rightarrow> config \<Rightarrow> lib \<Rightarrow> string \<Rightarrow> string \<Rightarrow> int \<Rightarrow> int \<Rightarrow> string option \<Rightarrow> string option
     \<Rightarrow> suggestedParams option \<Rightarrow> bytes io" where
  "craftAssetTransferTx w cfg l from to asset_id amount lease note sp =
     io_bind (paramsOr w sp) (\<lambda>suggested_params.
       let builder = (blankTx cfg Axfer from suggested_params)\<lparr>t_xaid := Some asset_id, t_arcv := Some to\<rparr>;
           builder = (if truthy_str note then builder\<lparr>t_note := note\<rparr> else builder);
           builder = (if amount \<noteq> 0 then builder\<lparr>t_aamt := Some amount\<rparr> else builder)
       in io_bind (withLease l lease builder) (encoded l))"

definition craftAssetClawbackTx ::
  "world \<Rightarrow> config \<Rightarrow> lib \<Rightarrow> string \<Rightarrow> string \<Rightarrow> string \<Rightarrow> int \<Rightarrow> int \<Rightarrow> string option \<Rightarrow> string option
     \<Rightarrow> suggestedParams option \<Rightarrow> bytes io" where
  "craftAssetClawbackTx w cfg l clawbackAddress' from to asset_id amount lease note sp =
     io_bind (paramsOr w sp) (\<lambda>suggested_params.
       let builder = (blankTx cfg Axfer clawbackAddress' suggested_params)
                       \<lparr>t_xaid := Some asset_id, t_asnd := Some from, t_arcv := Some to\<rparr>;
           builder = (if truthy_str note then builder\<lparr>t_note := note\<rparr> else builder);
           builder = (if amount \<noteq> 0 then builder\<lparr>t_aamt := Some amount\<rparr> else builder)
       in io_bind (withLease l lease builder) (encoded l))"

section \<open>VaultService\<close>

definition getUserPublicKey :: "world \<Rightarrow> string \<Rightarrow> bytes io" where
  "getUserPublicKey w keyName = io_call (GetUserPublicKey keyName) (user_key w keyName)"

definition getManagerPublicKey :: "world \<Rightarrow> bytes io" where
  "getManagerPublicKey w = io_call GetManagerPublicKey (manager_key w)"

definition getNamedManagerPublicKey :: "world \<Rightarrow> string \<Rightarrow> bytes io" where
  "getNamedManagerPublicKey w manager_name =
     io_call (GetNamedManagerPublicKey manager_name) (named_manager_key w manager_name)"

definition signAsUser :: "world \<Rightarrow> string \<Rightarrow> bytes \<Rightarrow> string io" where
  "signAsUser w user_id data = io_call (SignAsUser user_id data) (user_signature w user_id data)"

definition signAsManager :: "world \<Rightarrow> bytes \<Rightarrow> string io" where
  "signAsManager w data = io_call (SignAsManager data) (manager_signature w data)"

definition signAsNamedManager :: "world \<Rightarrow> string \<Rightarrow> bytes \<Rightarrow> string io" where
  "signAsNamedManager w manager_name data =
     io_call (SignAsNamedManager manager_name data) (named_manager_signature w manager_name data)"

section \<open>WalletService: user information and signing\<close>

record userInfoResponse =
  ui_user_id :: string
  ui_public_address :: string
  ui_algoBalance :: int

definition getUserInfo :: "world \<Rightarrow> lib \<Rightarrow> string \<Rightarrow> userInfoResponse io" where
  "getUserInfo w l user_id =
     io_bind (getUserPublicKey w user_id) (\<lambda>public_address.
       let encodedAddress = encodeAddress l public_address in
       io_bind (getAccountBalance w encodedAddress) (\<lambda>algoBalance.
         io_return \<lparr>ui_user_id = user_id, ui_public_address = encodedAddress,
                    ui_algoBalance = algoBalance\<rparr>))"

text \<open>\<open>String.prototype.split\<close> on a one-character separator.\<close>

fun split_on :: "char \<Rightarrow> string \<Rightarrow> string list" where
  "split_on c [] = [[]]"
| "split_on c (x # xs) =
     (if x = c then [] # split_on c xs
      else (case split_on c xs of [] \<Rightarrow> [[x]] | p # ps \<Rightarrow> (x # p) # ps))"

text \<open>
  The vault answers \<open>vault:<version>:<base64 signature>\<close>; the third field is decoded
  and attached. With fewer than three fields \<open>split(':')[2]\<close> is \<open>undefined\<close> and
  \<open>Buffer.from\<close> throws.
\<close>

definition attachSignature :: "lib \<Rightarrow> bytes \<Rightarrow> string \<Rightarrow> bytes io" where
  "attachSignature l tx vaultRawSig =
     (let parts = split_on CHR '':'' vaultRawSig in
      if length parts \<le> 2 then io_throw TypeError
      else let signature = parts ! 2; sig = base64_decode l signature
           in io_return (addSignature l tx sig))"

definition signTxAsUser :: "world \<Rightarrow> lib \<Rightarrow> string \<Rightarrow> bytes \<Rightarrow> bytes io" where
  "signTxAsUser w l user_id tx = io_bind (signAsUser w user_id tx) (attachSignature l tx)"

definition signTxAsManager :: "world \<Rightarrow> lib \<Rightarrow> bytes \<Rightarrow> bytes io" where
  "signTxAsManager w l tx = io_bind (signAsManager w tx) (attachSignature l tx)"

definition signTxAsNamedManager :: "world \<Rightarrow> lib \<Rightarrow> string \<Rightarrow> bytes \<Rightarrow> bytes io" where
  "signTxAsNamedManager w l manager_name tx =
     io_bind (signAsNamedManager w manager_name tx) (attachSignature l tx)"

section \<open>WalletService: simple transfer\<close>

text \<open>
  \<open>transferAlgoToAddress\<close>. Its \<open>lease\<close> and \<open>note\<close> parameters are accepted and never
  used: \<open>craftPaymentTx\<close> has no such parameters.
\<close>

definition transferAlgoToAddress ::
  "world \<Rightarrow> config \<Rightarrow> lib \<Rightarrow> string \<Rightarrow> string \<Rightarrow> int \<Rightarrow> string option \<Rightarrow> string option \<Rightarrow> string io" where
  "transferAlgoToAddress w cfg l fromUserId toAddress amount lease note =
     io_bind
       (io_catch
          (if fromUserId = ''manager'' then
             io_bind (getManagerPublicKey w) (\<lambda>managerPublicKey.
               io_return (encodeAddress l managerPublicKey))
           else
             io_bind (getUserInfo w l fromUserId) (\<lambda>info. io_return (ui_public_address info)))
          (\<lambda>error. io_throw (FailedFromAddress fromUserId error)))
       (\<lambda>fromAddress.
          io_bind (getSuggestedParams w) (\<lambda>sp.
          io_bind (craftPaymentTx w cfg l fromAddress toAddress amount (Some sp)) (\<lambda>payTx.
            io_catch
              (io_bind
                 (if fromUserId = ''manager'' then signTxAsManager w l payTx
                  else signTxAsUser w l fromUserId payTx)
                 (\<lambda>signedTx.
                    io_bind (submitTransaction w (One signedTx)) (\<lambda>r. io_return (txid r))))
              (\<lambda>error. io_throw (FailedSign fromUserId error)))))"

section \<open>WalletService: asset transfer with opt-in and funding\<close>

text \<open>The signing loop of \<open>transferAsset\<close>: each member is signed by its own sender.\<close>

fun signBySender ::
  "world \<Rightarrow> lib \<Rightarrow> string \<Rightarrow> string \<Rightarrow> string \<Rightarrow> bytes list \<Rightarrow> bytes list \<Rightarrow> bytes list io" where
  "signBySender w l userId userPublicAddress managerPublicAddress [] signedTxs = io_return signedTxs"
| "signBySender w l userId userPublicAddress managerPublicAddress (tx # rest) signedTxs =
     (case decodeTransaction l tx of
        Inl e \<Rightarrow> io_throw e
      | Inr decodedTx \<Rightarrow>
          (let isUserTx = (t_snd decodedTx = userPublicAddress);
               isManagerTx = (t_snd decodedTx = managerPublicAddress)
           in if isUserTx then
                io_bind (signTxAsUser w l userId tx) (\<lambda>signedTx.
                  signBySender w l userId userPublicAddress managerPublicAddress rest (signedTxs @ [signedTx]))
              else if isManagerTx then
                io_bind (signTxAsManager w l tx) (\<lambda>signedTx.
                  signBySender w l userId userPublicAddress managerPublicAddress rest (signedTxs @ [signedTx]))
              else io_throw InvalidSender))"

definition transferAsset ::
  "world \<Rightarrow> config \<Rightarrow> lib \<Rightarrow> int \<Rightarrow> string \<Rightarrow> int \<Rightarrow> string option \<Rightarrow> string option \<Rightarrow> string io" where
  "transferAsset w cfg l assetId userId amount lease note =
     io_bind (getUserInfo w l userId) (\<lambda>info.
     let userPublicAddress = ui_public_address info in
     io_bind (getManagerPublicKey w) (\<lambda>managerPublicKey.
     let managerPublicAddress = encodeAddress l managerPublicKey in
     io_bind (getSuggestedParams w) (\<lambda>suggested_params.
     io_bind (getAccountAsset w userPublicAddress assetId) (\<lambda>account_asset.
     let willOptInTx = (account_asset = None);
         userExtraAlgoNeed = (if willOptInTx
                              then js_add (js_add 0 100000) (js_number (minFee suggested_params))
                              else 0) in
     io_bind (getAccountDetail w userPublicAddress) (\<lambda>userAccountDetail.
     let userOwnedExtraAlgo = acc_amount userAccountDetail - acc_minBalance userAccountDetail;
         willPaymentTx = (userOwnedExtraAlgo < userExtraAlgoNeed);
         userExtraAlgoNeed = (if willPaymentTx
                              then js_sub userExtraAlgoNeed (js_number userOwnedExtraAlgo)
                              else userExtraAlgoNeed) in
     io_bind
       (if willPaymentTx then
          io_bind (craftPaymentTx w cfg l managerPublicAddress userPublicAddress userExtraAlgoNeed
                     (Some suggested_params))
            (\<lambda>tx. io_return [tx])
        else io_return []) (\<lambda>unSignedTxs.
     io_bind
       (if willOptInTx then
          io_bind (craftAssetTransferTx w cfg l userPublicAddress userPublicAddress assetId 0 lease None
                     (Some suggested_params))
            (\<lambda>tx. io_return (unSignedTxs @ [tx]))
        else io_return unSignedTxs) (\<lambda>unSignedTxs.
     io_bind (craftAssetTransferTx w cfg l managerPublicAddress userPublicAddress assetId amount lease note
                (Some suggested_params)) (\<lambda>tx.
     let unSignedTxs = unSignedTxs @ [tx] in
     io_bind (io_lift (setGroupID l unSignedTxs)) (\<lambda>unSignedGroupedTxns.
     io_bind (signBySender w l userId userPublicAddress managerPublicAddress unSignedGroupedTxns [])
       (\<lambda>signedTxs.
     io_bind (submitTransaction w (Many signedTxs)) (\<lambda>r. io_return (txid r))))))))))))"

section \<open>WalletService: group submission\<close>

datatype userType = UserT | ManagerT

record user =
  u_id :: string
  u_public_address :: string
  u_type :: userType

record createAssetDto =
  ca_sender :: user
  ca_options :: createAssetOptions
  ca_lease :: "string option"
  ca_note :: "string option"

record assetTransferRequestDto =
  at_assetId :: int
  at_sender :: user
  at_receiver :: user
  at_amount :: int
  at_lease :: "string option"
  at_note :: "string option"

record algoTransferRequestDto =
  al_receiver :: user
  al_amount :: int
  al_sender :: user
  al_lease :: "string option"
  al_note :: "string option"

text \<open>
  A \<open>Transaction\<close> of the group: its \<open>type\<close> tag selects the class of \<open>txn\<close>, so the tag
  is the constructor.
\<close>

datatype transactionBody =
    Create_asset createAssetDto
  | Asset_transfer assetTransferRequestDto
  | Algo_transfer algoTransferRequestDto

record transaction =
  x_txn :: transactionBody
  x_fee :: int

record sendGroupDto =
  transactions :: "transaction list"

record sendGroupResponseDto =
  transaction_id :: string
  signed_transactions :: "string list"

definition sender_of :: "transactionBody \<Rightarrow> user" where
  "sender_of b = (case b of Create_asset d \<Rightarrow> ca_sender d
                  | Asset_transfer d \<Rightarrow> at_sender d
                  | Algo_transfer d \<Rightarrow> al_sender d)"

text \<open>\<open>'receiver' in tx.txn ? tx.txn.receiver : undefined\<close>.\<close>

definition receiver_of :: "transactionBody \<Rightarrow> user option" where
  "receiver_of b = (case b of Create_asset d \<Rightarrow> None
                    | Asset_transfer d \<Rightarrow> Some (at_receiver d)
                    | Algo_transfer d \<Rightarrow> Some (al_receiver d))"

text \<open>The address that the vault's key for a declared identity encodes to.\<close>

definition actualAddress :: "world \<Rightarrow> lib \<Rightarrow> user \<Rightarrow> string io" where
  "actualAddress w l u =
     io_bind (if u_type u = UserT then getUserPublicKey w (u_id u)
              else getNamedManagerPublicKey w (u_id u))
       (\<lambda>key. io_return (encodeAddress l key))"

record userCheck =
  c_id :: string
  c_public_address :: string
  c_type :: userType
  c_actual_address :: string

definition checkOf :: "user \<Rightarrow> string \<Rightarrow> userCheck" where
  "checkOf u actual =
     \<lparr>c_id = u_id u, c_public_address = u_public_address u, c_type = u_type u,
      c_actual_address = actual\<rparr>"

text \<open>The first loop of \<open>sendGroup\<close>, which fills \<open>users\<close>.\<close>

fun collectUsers :: "world \<Rightarrow> lib \<Rightarrow> transaction list \<Rightarrow> userCheck list \<Rightarrow> userCheck list io" where
  "collectUsers w l [] users = io_return users"
| "collectUsers w l (tx # rest) users =
     (let sender = sender_of (x_txn tx); receiver = receiver_of (x_txn tx) in
      io_bind (actualAddress w l sender) (\<lambda>senderAddress.
      io_bind (case receiver of
                 Some r \<Rightarrow> io_bind (actualAddress w l r) (\<lambda>a. io_return (Some a))
               | None \<Rightarrow> io_return None) (\<lambda>receiverAddress.
        collectUsers w l rest
          (users @ [checkOf sender senderAddress] @
             (case receiver of Some r \<Rightarrow> [checkOf r (the receiverAddress)] | None \<Rightarrow> [])))))"

text \<open>
  The crafting loop of \<open>sendGroup\<close>. An asset transfer is built with algosdk from
  parameters the algosdk client fetches itself; its \<open>bytesToSign()\<close> is taken to be the
  same canonical encoding the library's encoder produces.
\<close>

definition craftMember :: "world \<Rightarrow> config \<Rightarrow> lib \<Rightarrow> suggestedParams \<Rightarrow> transaction \<Rightarrow> bytes io" where
  "craftMember w cfg l suggested_params tx =
     (case x_txn tx of
        Algo_transfer txn \<Rightarrow>
          (let sp = suggested_params\<lparr>minFee := x_fee tx\<rparr> in
           craftPaymentTx w cfg l (u_public_address (al_sender txn))
             (u_public_address (al_receiver txn)) (al_amount txn) (Some sp))
      | Asset_transfer txn \<Rightarrow>
          io_bind (io_call SdkParams (sdk_params w)) (\<lambda>sugp.
            let sugp = sugp\<lparr>minFee := x_fee tx\<rparr>;
                txnalgosdk = (blankTx cfg Axfer (u_public_address (at_sender txn)) sugp)
                  \<lparr>t_xaid := Some (at_assetId txn),
                   t_arcv := Some (u_public_address (at_receiver txn)),
                   t_aamt := (if at_amount txn \<noteq> 0 then Some (at_amount txn) else None)\<rparr>
            in encoded l txnalgosdk)
      | Create_asset txn \<Rightarrow>
          (let sp = suggested_params\<lparr>minFee := x_fee tx\<rparr> in
           craftAssetCreateTx w cfg l (u_public_address (ca_sender txn)) (ca_options txn) (Some sp)))"

fun craftGroup ::
  "world \<Rightarrow> config \<Rightarrow> lib \<Rightarrow> suggestedParams \<Rightarrow> transaction list \<Rightarrow> bytes list \<Rightarrow> bytes list io" where
  "craftGroup w cfg l suggested_params [] unSignedTxs = io_return unSignedTxs"
| "craftGroup w cfg l suggested_params (tx # rest) unSignedTxs =
     io_bind (craftMember w cfg l suggested_params tx) (\<lambda>b.
       craftGroup w cfg l suggested_params rest (unSignedTxs @ [b]))"

text \<open>
  The signing loop of \<open>sendGroup\<close>: member \<open>i\<close> is signed for the sender declared by
  \<open>group.transactions[i]\<close>.
\<close>

fun signGroup ::
  "world \<Rightarrow> lib \<Rightarrow> bytes list \<Rightarrow> transaction list \<Rightarrow> bytes list \<Rightarrow> string list
     \<Rightarrow> (bytes list \<times> string list) io" where
  "signGroup w l [] orgs signedTxs encodedTransactions = io_return (signedTxs, encodedTransactions)"
| "signGroup w l (tx # rest) [] signedTxs encodedTransactions = io_throw TypeError"
| "signGroup w l (tx # rest) (org # orgs) signedTxs encodedTransactions =
     (let orgTx = x_txn org;
          isUserTx = (u_type (sender_of orgTx) = UserT);
          isManagerTx = (u_type (sender_of orgTx) = ManagerT)
      in if isUserTx then
           io_bind (signTxAsUser w l (u_id (sender_of orgTx)) tx) (\<lambda>signedTx.
             signGroup w l rest orgs (signedTxs @ [signedTx])
               (encodedTransactions @ [base64_encode l tx]))
         else if isManagerTx then
           io_bind (signTxAsNamedManager w l (u_id (sender_of orgTx)) tx) (\<lambda>signedTx.
             signGroup w l rest orgs (signedTxs @ [signedTx])
               (encodedTransactions @ [base64_encode l tx]))
         else io_throw InvalidSender)"

definition sendGroup :: "world \<Rightarrow> config \<Rightarrow> lib \<Rightarrow> sendGroupDto \<Rightarrow> sendGroupResponseDto io" where
  "sendGroup w cfg l group' =
     io_bind (collectUsers w l (transactions group') []) (\<lambda>users.
     let areUsersValid = list_all (\<lambda>user. c_actual_address user = c_public_address user) users in
     if \<not> areUsersValid then io_throw InvalidUsers
     else
     io_bind (getSuggestedParams w) (\<lambda>suggested_params.
     io_bind (craftGroup w cfg l suggested_params (transactions group') []) (\<lambda>unSignedTxs.
     io_bind (io_lift (setGroupID l unSignedTxs)) (\<lambda>unSignedGroupedTxns.
     io_bind (signGroup w l unSignedGroupedTxns (transactions group') [] []) (\<lambda>signed.
     io_bind (submitTransaction w (Many (fst signed))) (\<lambda>r.
       io_return \<lparr>transaction_id = txid r, signed_transactions = snd signed\<rparr>))))))"

section \<open>Observations on traces\<close>

text \<open>The transactions crafted along a trace, in the order they were crafted.\<close>

fun crafted :: "event list \<Rightarrow> txn list" where
  "crafted [] = []"
| "crafted (Crafted tx # evs) = tx # crafted evs"
| "crafted (ev # evs) = crafted evs"

text \<open>The events that only read a public key from the vault.\<close>

fun is_key_lookup :: "event \<Rightarrow> bool" where
  "is_key_lookup (GetUserPublicKey user_id) = True"
| "is_key_lookup GetManagerPublicKey = True"
| "is_key_lookup (GetNamedManagerPublicKey manager_name) = True"
| "is_key_lookup ev = False"

text \<open>The events that ask the vault for a signature or post to the node.\<close>

fun is_sign_or_submit :: "event \<Rightarrow> bool" where
  "is_sign_or_submit (SignAsUser user_id payload) = True"
| "is_sign_or_submit (SignAsManager payload) = True"
| "is_sign_or_submit (SignAsNamedManager manager_name payload) = True"
| "is_sign_or_submit (NodePost payload) = True"
| "is_sign_or_submit ev = False"

text \<open>The events that reach the ledger node.\<close>

fun is_ledger_interaction :: "event \<Rightarrow> bool" where
  "is_ledger_interaction NodeParams = True"
| "is_ledger_interaction (NodeAccount a) = True"
| "is_ledger_interaction (NodeAccountAsset a i) = True"
| "is_ledger_interaction (NodePending t) = True"
| "is_ledger_interaction (NodeWaitBlock r) = True"
| "is_ledger_interaction (NodePost b) = True"
| "is_ledger_interaction SdkParams = True"
| "is_ledger_interaction ev = False"

text \<open>The vault key a vault call works with.\<close>

datatype vaultKey = UserKey string | DefaultManagerKey | NamedManagerKey string

fun vault_key_of :: "event \<Rightarrow> vaultKey option" where
  "vault_key_of (GetUserPublicKey user_id) = Some (UserKey user_id)"
| "vault_key_of (SignAsUser user_id payload) = Some (UserKey user_id)"
| "vault_key_of GetManagerPublicKey = Some DefaultManagerKey"
| "vault_key_of (SignAsManager payload) = Some DefaultManagerKey"
| "vault_key_of (GetNamedManagerPublicKey manager_name) = Some (NamedManagerKey manager_name)"
| "vault_key_of (SignAsNamedManager manager_name payload) = Some (NamedManagerKey manager_name)"
| "vault_key_of ev = None"

text \<open>
  \<open>emits P m\<close>: whatever \<open>m\<close> does, it only appends events, and every event it appends
  satisfies \<open>P\<close>.
\<close>

definition emits :: "(event \<Rightarrow> bool) \<Rightarrow> 'a io \<Rightarrow> bool" where
  "emits P m = (\<forall>tr. \<exists>new. snd (m tr) = tr @ new \<and> list_all P new)"

text \<open>The key the vault holds for a declared identity, and whether a whole group resolves.\<close>

definition custody_key :: "world \<Rightarrow> user \<Rightarrow> error + bytes" where
  "custody_key w u = (if u_type u = UserT then user_key w (u_id u) else named_manager_key w (u_id u))"

definition custody_resolves :: "world \<Rightarrow> transaction list \<Rightarrow> bool" where
  "custody_resolves w txs =
     list_all (\<lambda>tx. \<not> isl (custody_key w (sender_of (x_txn tx))) \<and>
                     (case receiver_of (x_txn tx) of None \<Rightarrow> True
                      | Some r \<Rightarrow> \<not> isl (custody_key w r))) txs"

text \<open>An event that is no \<open>Crafted\<close> event.\<close>

definition no_craft :: "event \<Rightarrow> bool" where
  "no_craft ev = (crafted [ev] = [])"

text \<open>A lease is refused when it is present and does not decode to exactly 32 bytes.\<close>

definition lease_rejected :: "lib \<Rightarrow> string option \<Rightarrow> bool" where
  "lease_rejected l lease = (truthy_str lease \<and> length (parseLease l (the lease)) \<noteq> 32)"

text \<open>
  The transaction that \<open>craftAssetTransferTx\<close> builds when it accepts the lease (lemma
  \<open>craftAssetTransferTx_accepted\<close>).
\<close>

definition axferTx ::
  "config \<Rightarrow> lib \<Rightarrow> string \<Rightarrow> string \<Rightarrow> int \<Rightarrow> int \<Rightarrow> string option \<Rightarrow> string option \<Rightarrow> suggestedParams \<Rightarrow> txn" where
  "axferTx cfg l from to asset_id amt lease note sp =
     (blankTx cfg Axfer from sp)
       \<lparr>t_xaid := Some asset_id, t_arcv := Some to,
        t_aamt := (if amt \<noteq> 0 then Some amt else None),
        t_note := (if truthy_str note then note else None),
        t_lx := (if truthy_str lease then Some (parseLease l (the lease)) else None)\<rparr>"

text \<open>A computation that fails from every trace.\<close>

definition always_fails :: "'a io \<Rightarrow> bool" where
  "always_fails m = (\<forall>tr. isl (fst (m tr)))"

text \<open>
  The closing steps of \<open>transferAsset\<close> on the list of unsigned transactions it has built:
  give them one group id, sign each member for its own sender, post the signed members
  as one bundle and return the transaction id.
\<close>

definition groupSignSubmit ::
  "world \<Rightarrow> lib \<Rightarrow> string \<Rightarrow> string \<Rightarrow> string \<Rightarrow> bytes list \<Rightarrow> string io" where
  "groupSignSubmit w l userId userPublicAddress managerPublicAddress unSignedTxs =
     io_bind (io_lift (setGroupID l unSignedTxs)) (\<lambda>unSignedGroupedTxns.
     io_bind (signBySender w l userId userPublicAddress managerPublicAddress unSignedGroupedTxns [])
       (\<lambda>signedTxs.
     io_bind (submitTransaction w (Many signedTxs)) (\<lambda>r. io_return (txid r))))"

text \<open>The identities a group member declares, and the key lookup made for an identity.\<close>

definition declared_users :: "transaction \<Rightarrow> user list" where
  "declared_users tx =
     sender_of (x_txn tx) # (case receiver_of (x_txn tx) of None \<Rightarrow> [] | Some r \<Rightarrow> [r])"

definition lookup_event :: "user \<Rightarrow> event" where
  "lookup_event u = (if u_type u = UserT then GetUserPublicKey (u_id u)
                     else GetNamedManagerPublicKey (u_id u))"

text \<open>
  The first declared identity of a group, in the order in which \<open>sendGroup\<close> looks the
  identities up (sender, then receiver, member after member), for which the vault
  returns no key.
\<close>

definition first_unresolved :: "world \<Rightarrow> transaction list \<Rightarrow> user option" where
  "first_unresolved w txs = find (\<lambda>u. isl (custody_key w u)) (concat (map declared_users txs))"

section \<open>Concrete worlds\<close>

text \<open>
  A small library instance: three known keys with their addresses, an encoding that
  keeps a transaction's fee byte and group id, and base64 on the two lease strings used
  below (one byte, and thirty-two bytes).
\<close>

definition demo_lib :: lib where
  "demo_lib =
     \<lparr>encodeAddress = (\<lambda>k. if k = [1] then ''ALICE-ADDR'' else if k = [2] then ''MANAGER-ADDR''
                          else if k = [3] then ''OPS-ADDR'' else ''OTHER-ADDR''),
      encodeTransaction = (\<lambda>t. word_of_int (t_fee t) # (case t_grp t of None \<Rightarrow> [] | Some g \<Rightarrow> g)),
      decodeTransaction = (\<lambda>b. case b of [] \<Rightarrow> Inl DecodeError
                                | f # g \<Rightarrow> Inr \<lparr>t_type = Pay, t_gen = [], t_gh = [], t_snd = [],
                                    t_fee = uint f, t_fv = 0, t_lv = 0, t_rcv = None, t_amt = None,
                                    t_xaid = None, t_arcv = None, t_asnd = None, t_aamt = None,
                                    t_apar = None, t_note = None, t_lx = None,
                                    t_grp = (if g = [] then None else Some g)\<rparr>),
      groupHash = rev,
      addSignature = (\<lambda>tx sig. tx @ sig),
      base64_decode = (\<lambda>s. if s = ''AA=='' then [0]
                          else if s = ''AAAAAAAAAAAAAAAAAAAAAAAAAAAAAAAAAAAAAAAAAAA='' then replicate 32 0
                          else []),
      base64_encode = (\<lambda>b. [])\<rparr>"

definition demo_cfg :: config where
  "demo_cfg = \<lparr>GENESIS_ID = ''testnet-v1.0'', GENESIS_HASH = ''SGO1''\<rparr>"

text \<open>
  A world in which the vault knows user \<open>alice\<close>, the default manager and the named
  manager \<open>ops\<close>; alice's account holds nothing and has opted in to nothing; every
  transaction is confirmed in the round after the current one.
\<close>

definition demo_world :: world where
  "demo_world =
     \<lparr>user_key = (\<lambda>i. if i = ''alice'' then Inr [1] else Inl (VaultException 404)),
      manager_key = Inr [2],
      named_manager_key = (\<lambda>n. if n = ''ops'' then Inr [3] else Inl (VaultException 404)),
      user_signature = (\<lambda>i b. Inr ''vault:v1:AA==''),
      manager_signature = (\<lambda>b. Inr ''vault:v1:AA==''),
      named_manager_signature = (\<lambda>n b. Inr ''vault:v1:AA==''),
      node_params = Inr \<lparr>lastRound = 100, minFee = 1000\<rparr>,
      node_account = (\<lambda>a. Inr \<lparr>acc_amount = 0, acc_minBalance = 100000, acc_assets = []\<rparr>),
      node_account_asset = (\<lambda>a i. Inl (NodeException 404)),
      node_pending = (\<lambda>t r. Inr \<lparr>confirmed_round = Some (r + 1), pool_error = Some []\<rparr>),
      node_wait_block = (\<lambda>r. Inr ()),
      node_post = (\<lambda>b. Inr ''TXID''),
      sdk_params = Inr \<lparr>lastRound = 100, minFee = 1000\<rparr>\<rparr>"

text \<open>A node whose first pending query fails and whose second one reports a pool error.\<close>

definition flaky_node :: world where
  "flaky_node = demo_world
     \<lparr>node_pending := (\<lambda>t r. if r = 100 then Inl (NodeException 404)
                             else Inr \<lparr>confirmed_round = None, pool_error = Some ''overspend''\<rparr>)\<rparr>"

text \<open>A node on which the transaction never becomes visible.\<close>

definition silent_node :: world where
  "silent_node = demo_world
     \<lparr>node_pending := (\<lambda>t r. Inr \<lparr>confirmed_round = None, pool_error = Some []\<rparr>)\<rparr>"

text \<open>
  Two groups of one payment from user \<open>alice\<close> to the named manager \<open>ops\<close>. In the first
  the sender claims the address of \<open>ops\<close>; in the second the sender's claim is right and
  the receiver claims the address of \<open>alice\<close>.
\<close>

definition spoofed_sender_group :: sendGroupDto where
  "spoofed_sender_group =
     \<lparr>transactions =
        [\<lparr>x_txn = Algo_transfer
              \<lparr>al_receiver = \<lparr>u_id = ''ops'', u_public_address = ''OPS-ADDR'', u_type = ManagerT\<rparr>,
               al_amount = 7,
               al_sender = \<lparr>u_id = ''alice'', u_public_address = ''OPS-ADDR'', u_type = UserT\<rparr>,
               al_lease = None, al_note = None\<rparr>,
          x_fee = 1000\<rparr>]\<rparr>"

definition spoofed_receiver_group :: sendGroupDto where
  "spoofed_receiver_group =
     \<lparr>transactions =
        [\<lparr>x_txn = Algo_transfer
              \<lparr>al_receiver = \<lparr>u_id = ''ops'', u_public_address = ''ALICE-ADDR'', u_type = ManagerT\<rparr>,
               al_amount = 7,
               al_sender = \<lparr>u_id = ''alice'', u_public_address = ''ALICE-ADDR'', u_type = UserT\<rparr>,
               al_lease = None, al_note = None\<rparr>,
          x_fee = 1000\<rparr>]\<rparr>"

text \<open>
  A second library instance whose encoding keeps a transaction's type, its sender (one
  of the three known addresses) and its group id, so that the sender can be read back
  from the encoded bytes.
\<close>

definition wire_lib :: lib where
  "wire_lib =
     \<lparr>encodeAddress = (\<lambda>k. if k = [1] then ''ALICE-ADDR'' else if k = [2] then ''MANAGER-ADDR''
                          else if k = [3] then ''OPS-ADDR'' else ''OTHER-ADDR''),
      encodeTransaction =
        (\<lambda>t. (case t_type t of Pay \<Rightarrow> 0 | Axfer \<Rightarrow> 1 | Acfg \<Rightarrow> 2) #
              (if t_snd t = ''ALICE-ADDR'' then 1 else if t_snd t = ''MANAGER-ADDR'' then 2
               else if t_snd t = ''OPS-ADDR'' then 3 else 0) #
              (case t_grp t of None \<Rightarrow> [] | Some g \<Rightarrow> g)),
      decodeTransaction =
        (\<lambda>b. case b of
               ty # s # g \<Rightarrow>
                 Inr \<lparr>t_type = (if ty = 0 then Pay else if ty = 1 then Axfer else Acfg),
                      t_gen = [], t_gh = [],
                      t_snd = (if s = 1 then ''ALICE-ADDR'' else if s = 2 then ''MANAGER-ADDR''
                               else if s = 3 then ''OPS-ADDR'' else ''OTHER-ADDR''),
                      t_fee = 0, t_fv = 0, t_lv = 0, t_rcv = None, t_amt = None,
                      t_xaid = None, t_arcv = None, t_asnd = None, t_aamt = None,
                      t_apar = None, t_note = None, t_lx = None,
                      t_grp = (if g = [] then None else Some g)\<rparr>
             | _ \<Rightarrow> Inl DecodeError),
      groupHash = rev,
      addSignature = (\<lambda>tx sig. tx @ sig),
      base64_decode = (\<lambda>s. if s = ''AA=='' then [0]
                          else if s = ''AAAAAAAAAAAAAAAAAAAAAAAAAAAAAAAAAAAAAAAAAAA='' then replicate 32 0
                          else []),
      base64_encode = (\<lambda>b. [])\<rparr>"

text \<open>
  The world of \<open>demo_world\<close> with an account whose balance is 1 micro-unit and whose
  minimum balance is \<open>2^54\<close> micro-units.
\<close>

definition huge_minimum_world :: world where
  "huge_minimum_world = demo_world
     \<lparr>node_account := (\<lambda>a. Inr \<lparr>acc_amount = 1, acc_minBalance = 18014398509481984,
                                  acc_assets = []\<rparr>)\<rparr>"

text \<open>
  A group of two payments to \<open>ops\<close>: the first from \<open>alice\<close>, who claims the address of
  \<open>ops\<close>; the second from \<open>bob\<close>, whom the vault does not know.
\<close>

definition spoofed_and_unknown_group :: sendGroupDto where
  "spoofed_and_unknown_group =
     \<lparr>transactions =
        [\<lparr>x_txn = Algo_transfer
              \<lparr>al_receiver = \<lparr>u_id = ''ops'', u_public_address = ''OPS-ADDR'', u_type = ManagerT\<rparr>,
               al_amount = 7,
               al_sender = \<lparr>u_id = ''alice'', u_public_address = ''OPS-ADDR'', u_type = UserT\<rparr>,
               al_lease = None, al_note = None\<rparr>,
          x_fee = 1000\<rparr>,
         \<lparr>x_txn = Algo_transfer
              \<lparr>al_receiver = \<lparr>u_id = ''ops'', u_public_address = ''OPS-ADDR'', u_type = ManagerT\<rparr>,
               al_amount = 7,
               al_sender = \<lparr>u_id = ''bob'', u_public_address = ''BOB-ADDR'', u_type = UserT\<rparr>,
               al_lease = None, al_note = None\<rparr>,
          x_fee = 1000\<rparr>]\<rparr>"

section \<open>Running computations\<close>

lemma io_bind_return [simp]: "io_bind (io_return x) f = f x"
  by (simp add: io_bind_def io_return_def)

lemma io_bind_throw [simp]: "io_bind (io_throw e) f = io_throw e"
  by (simp add: io_bind_def io_throw_def)

lemma io_bind_run: "io_bind m f tr = (case m tr of (Inl e, tr') \<Rightarrow> (Inl e, tr') | (Inr x, tr') \<Rightarrow> f x tr')"
  by (simp add: io_bind_def)

lemma io_call_run: "io_call ev answer tr = (answer, tr @ [ev])"
  by (simp add: io_call_def)

lemma io_return_run: "io_return x tr = (Inr x, tr)"
  by (simp add: io_return_def)

lemma io_throw_run: "io_throw e tr = (Inl e, tr)"
  by (simp add: io_throw_def)

lemma io_lift_run: "io_lift r tr = (r, tr)"
  by (simp add: io_lift_def)

lemmas io_run = io_call_run io_return_run io_throw_run io_lift_run

section \<open>Exact numbers\<close>

declare excess_bits.simps [simp del]

lemma js_number_exact: "\<bar>x\<bar> \<le> 2 ^ 53 \<Longrightarrow> js_number x = x"
proof (cases "\<bar>x\<bar> < 2 ^ 53")
  case True
  then have "nat \<bar>x\<bar> < 2 ^ 53" by (simp add: nat_less_iff)
  then have "excess_bits (nat \<bar>x\<bar>) = 0" by (subst excess_bits.simps) simp
  then show ?thesis by (simp add: js_number_def Let_def mult_sgn_abs)
next
  case False
  assume "\<bar>x\<bar> \<le> 2 ^ 53"
  with False have a: "\<bar>x\<bar> = 2 ^ 53" by simp
  then have n: "nat \<bar>x\<bar> = 2 ^ 53" by simp
  have "excess_bits 9007199254740992 = Suc (excess_bits 4503599627370496)"
    by (subst excess_bits.simps) simp
  also have "excess_bits 4503599627370496 = 0" by (subst excess_bits.simps) simp
  finally have e: "excess_bits 9007199254740992 = 1" by simp
  have "js_number x = sgn x * 2 ^ 53"
    by (simp add: js_number_def Let_def n e)
  with a show ?thesis by (metis mult_sgn_abs)
qed

lemma js_add_exact: "\<bar>a + b\<bar> \<le> 2 ^ 53 \<Longrightarrow> js_add a b = a + b"
  by (simp add: js_add_def js_number_exact)

lemma js_sub_exact: "\<bar>a - b\<bar> \<le> 2 ^ 53 \<Longrightarrow> js_sub a b = a - b"
  by (simp add: js_sub_def js_number_exact)

section \<open>Confirmation polling\<close>

lemma pollPending_failure: "node_pending w txId r = Inl err \<Longrightarrow> pollPending w txId r tr = (Inr None, tr @ [NodePending txId])"
  by (simp add: pollPending_def io_run)

lemma pollPending_not_visible:
  "node_pending w txId r = Inr info \<Longrightarrow> \<not> truthy_num (confirmed_round info) \<Longrightarrow> \<not> truthy_str (pool_error info)
   \<Longrightarrow> pollPending w txId r tr = (Inr None, tr @ [NodePending txId])"
  by (simp add: pollPending_def io_run)

lemma pollPending_rejected:
  "node_pending w txId r = Inr info \<Longrightarrow> \<not> truthy_num (confirmed_round info) \<Longrightarrow> truthy_str (pool_error info)
   \<Longrightarrow> pollPending w txId r tr = (Inl (TransactionRejected (the (pool_error info))), tr @ [NodePending txId])"
  by (simp add: pollPending_def io_run)

lemma pollPending_confirmed:
  "node_pending w txId r = Inr info \<Longrightarrow> truthy_num (confirmed_round info)
   \<Longrightarrow> pollPending w txId r tr = (Inr (Some info), tr @ [NodePending txId])"
  by (simp add: pollPending_def io_run)

declare waitLoop.simps [simp del]

lemma waitLoop_continue:
  assumes "currentRound < stopRound"
    and "pollPending w txId currentRound tr = (Inr None, tr1)"
  shows "waitLoop w txId currentRound stopRound tr =
      (case node_wait_block w currentRound of
         Inl e \<Rightarrow> (Inl e, tr1 @ [NodeWaitBlock currentRound])
       | Inr u \<Rightarrow> waitLoop w txId (currentRound + 1) stopRound (tr1 @ [NodeWaitBlock currentRound]))"
  using assms by (subst waitLoop.simps) (simp add: waitForBlockAfter_def io_run split: sum.splits)

text \<open>
  Claim C3. During confirmation polling, a failure of the pending-status query is absorbed
  and polling continues: the poll yields the same "go on" outcome as an answer without
  confirmed round and without pool error, and the loop proceeds to wait for the next
  block and to the next round. When a poll observes a pool-error marker (on an answer
  without a confirmed round), the loop ends at once with the rejection, and the pending
  query of that poll is the last event: there is no further poll, wait or retry.
\<close>

theorem poll_failure_absorbed_rejection_terminal:
  assumes "currentRound < stopRound"
  shows "(\<forall>err. node_pending w txId currentRound = Inl err \<longrightarrow>
            pollPending w txId currentRound tr = (Inr None, tr @ [NodePending txId]) \<and>
            waitLoop w txId currentRound stopRound tr =
              (case node_wait_block w currentRound of
                 Inl e \<Rightarrow> (Inl e, tr @ [NodePending txId, NodeWaitBlock currentRound])
               | Inr u \<Rightarrow> waitLoop w txId (currentRound + 1) stopRound
                            (tr @ [NodePending txId, NodeWaitBlock currentRound])))
       \<and> (\<forall>info. node_pending w txId currentRound = Inr info \<longrightarrow>
            \<not> truthy_num (confirmed_round info) \<longrightarrow> truthy_str (pool_error info) \<longrightarrow>
            waitLoop w txId currentRound stopRound tr =
              (Inl (TransactionRejected (the (pool_error info))), tr @ [NodePending txId]))"
proof (intro conjI allI impI)
  fix err assume f: "node_pending w txId currentRound = Inl err"
  show p: "pollPending w txId currentRound tr = (Inr None, tr @ [NodePending txId])"
    by (rule pollPending_failure [OF f])
  show "waitLoop w txId currentRound stopRound tr =
              (case node_wait_block w currentRound of
                 Inl e \<Rightarrow> (Inl e, tr @ [NodePending txId, NodeWaitBlock currentRound])
               | Inr u \<Rightarrow> waitLoop w txId (currentRound + 1) stopRound
                            (tr @ [NodePending txId, NodeWaitBlock currentRound]))"
    using waitLoop_continue [OF assms p] by (simp split: sum.splits)
next
  fix info
  assume a: "node_pending w txId currentRound = Inr info" "\<not> truthy_num (confirmed_round info)"
    "truthy_str (pool_error info)"
  show "waitLoop w txId currentRound stopRound tr =
              (Inl (TransactionRejected (the (pool_error info))), tr @ [NodePending txId])"
    using assms pollPending_rejected [OF a] by (subst waitLoop.simps) simp
qed

theorem poll_failure_absorbed_rejection_terminal_witness:
  "waitLoop flaky_node ''TXID'' 100 102 [] =
     (Inl (TransactionRejected ''overspend''),
      [NodePending ''TXID'', NodeWaitBlock 100, NodePending ''TXID''])"
proof -
  have lt1: "(100::int) < 102" and lt2: "(101::int) < 102" by simp_all
  have f: "node_pending flaky_node ''TXID'' 100 = Inl (NodeException 404)"
    by (simp add: flaky_node_def demo_world_def)
  have r: "node_pending flaky_node ''TXID'' 101 = Inr \<lparr>confirmed_round = None, pool_error = Some ''overspend''\<rparr>"
    by (simp add: flaky_node_def demo_world_def)
  have wb: "node_wait_block flaky_node 100 = Inr ()"
    by (simp add: flaky_node_def demo_world_def)
  from poll_failure_absorbed_rejection_terminal [OF lt1, of flaky_node "''TXID''" "[]"] f wb
  have s1: "waitLoop flaky_node ''TXID'' 100 102 [] =
      waitLoop flaky_node ''TXID'' 101 102 [NodePending ''TXID'', NodeWaitBlock 100]"
    by simp
  from poll_failure_absorbed_rejection_terminal [OF lt2, of flaky_node "''TXID''"
      "[NodePending ''TXID'', NodeWaitBlock 100]"] r
  have s2: "waitLoop flaky_node ''TXID'' 101 102 [NodePending ''TXID'', NodeWaitBlock 100] =
      (Inl (TransactionRejected ''overspend''),
       [NodePending ''TXID'', NodeWaitBlock 100, NodePending ''TXID''])"
    by (simp add: truthy_num_def truthy_str_def)
  from s1 s2 show ?thesis by simp
qed

lemma waitLoop_exhausted:
  assumes "\<And>r. cur \<le> r \<Longrightarrow> r < stop \<Longrightarrow>
             (case node_pending w txId r of Inl e \<Rightarrow> True
              | Inr info \<Rightarrow> \<not> truthy_num (confirmed_round info) \<and> \<not> truthy_str (pool_error info))"
    and "\<And>r. cur \<le> r \<Longrightarrow> r < stop \<Longrightarrow> node_wait_block w r = Inr ()"
  shows "fst (waitLoop w txId cur stop tr) = Inr None"
  using assms
proof (induction w txId cur stop tr rule: waitLoop.induct)
  case (1 w txId currentRound stopRound tr)
  show ?case
  proof (cases "currentRound < stopRound")
    case False
    then show ?thesis by (subst waitLoop.simps) simp
  next
    case True
    have p: "pollPending w txId currentRound tr = (Inr None, tr @ [NodePending txId])"
      using "1.prems"(1) [of currentRound] True
      by (auto simp: pollPending_def io_run split: sum.splits)
    have wb: "node_wait_block w currentRound = Inr ()"
      using "1.prems"(2) [of currentRound] True by simp
    have wfb: "waitForBlockAfter w currentRound (tr @ [NodePending txId]) =
        (Inr (), tr @ [NodePending txId] @ [NodeWaitBlock currentRound])"
      by (simp add: waitForBlockAfter_def wb io_run)
    have ih: "fst (waitLoop w txId (currentRound + 1) stopRound
                (tr @ [NodePending txId] @ [NodeWaitBlock currentRound])) = Inr None"
      by (rule "1.IH" [OF True p [symmetric] refl refl wfb [symmetric] refl]) (use "1.prems" in auto)
    show ?thesis
      using True p wb ih waitLoop_continue [OF True p] by simp
  qed
qed

lemma waitLoop_exhausted_trace:
  assumes "\<And>r. cur \<le> r \<Longrightarrow> r < stop \<Longrightarrow>
             (case node_pending w txId r of Inl e \<Rightarrow> True
              | Inr info \<Rightarrow> \<not> truthy_num (confirmed_round info) \<and> \<not> truthy_str (pool_error info))"
    and "\<And>r. cur \<le> r \<Longrightarrow> r < stop \<Longrightarrow> node_wait_block w r = Inr ()"
  shows "waitLoop w txId cur stop tr =
           (Inr None, tr @ concat (map (\<lambda>r. [NodePending txId, NodeWaitBlock r]) [cur..stop - 1]))"
  using assms
proof (induction w txId cur stop tr rule: waitLoop.induct)
  case (1 w txId currentRound stopRound tr)
  show ?case
  proof (cases "currentRound < stopRound")
    case False
    then show ?thesis by (subst waitLoop.simps) simp
  next
    case True
    have p: "pollPending w txId currentRound tr = (Inr None, tr @ [NodePending txId])"
      using "1.prems"(1) [of currentRound] True
      by (auto simp: pollPending_def io_run split: sum.splits)
    have wb: "node_wait_block w currentRound = Inr ()"
      using "1.prems"(2) [of currentRound] True by simp
    have wfb: "waitForBlockAfter w currentRound (tr @ [NodePending txId]) =
        (Inr (), tr @ [NodePending txId] @ [NodeWaitBlock currentRound])"
      by (simp add: waitForBlockAfter_def wb io_run)
    have ih: "waitLoop w txId (currentRound + 1) stopRound
                (tr @ [NodePending txId] @ [NodeWaitBlock currentRound]) =
              (Inr None, (tr @ [NodePending txId] @ [NodeWaitBlock currentRound]) @
                 concat (map (\<lambda>r. [NodePending txId, NodeWaitBlock r]) [currentRound + 1..stopRound - 1]))"
      by (rule "1.IH" [OF True p [symmetric] refl refl wfb [symmetric] refl]) (use "1.prems" in auto)
    have u: "[currentRound..stopRound - 1] = currentRound # [currentRound + 1..stopRound - 1]"
      using True by (simp add: upto_rec1)
    show ?thesis
      using True p wb ih waitLoop_continue [OF True p] by (simp add: u)
  qed
qed

lemma submitTransaction_unconfirmed:
  assumes "node_post w (case txnOrtxns of One txn \<Rightarrow> txn | Many txns \<Rightarrow> concat txns) = Inr txId"
    and "node_params w = Inr sp"
    and "\<And>r. lastRound sp \<le> r \<Longrightarrow> r < lastRound sp + 20 \<Longrightarrow>
             (case node_pending w txId r of Inl e \<Rightarrow> True
              | Inr info \<Rightarrow> \<not> truthy_num (confirmed_round info) \<and> \<not> truthy_str (pool_error info))"
    and "\<And>r. lastRound sp \<le> r \<Longrightarrow> r < lastRound sp + 20 \<Longrightarrow> node_wait_block w r = Inr ()"
  shows "fst (submitTransaction w txnOrtxns tr) = Inr \<lparr>txid = txId\<rparr>"
proof -
  let ?tr = "tr @ [NodePost (case txnOrtxns of One txn \<Rightarrow> txn | Many txns \<Rightarrow> concat txns)] @ [NodeParams]"
  have "fst (waitLoop w txId (lastRound sp) (lastRound sp + 20) ?tr) = Inr None"
    by (rule waitLoop_exhausted) (use assms in auto)
  then obtain tr' where "waitLoop w txId (lastRound sp) (lastRound sp + 20) ?tr = (Inr None, tr')"
    by (metis prod.collapse)
  then show ?thesis
    using assms(1,2)
    by (simp add: submitTransaction_def waitConfirmation_def getSuggestedParams_def io_bind_run io_run Let_def)
qed

text \<open>
  Claim C4, evaluated on the code. On a node where the transaction never shows a confirmed
  round or a pool error, \<open>waitConfirmation\<close> with the default budget of 20 rounds polls
  in each of the rounds 100 to 119, falls out of its loop and returns \<open>undefined\<close>
  without throwing, and \<open>submitTransaction\<close>, which
  does not look at that result, returns the transaction id exactly as it does on a node
  that confirms the transaction at the first poll. No timed-out outcome reaches the caller.
\<close>

theorem timeout_reported_as_success:
  "waitConfirmation silent_node ''TXID'' 20 [] =
     (Inr None, NodeParams # concat (map (\<lambda>r. [NodePending ''TXID'', NodeWaitBlock r]) [100..119])) \<and>
   fst (submitTransaction silent_node (One [1, 2, 3]) []) = Inr \<lparr>txid = ''TXID''\<rparr> \<and>
   fst (submitTransaction demo_world (One [1, 2, 3]) []) = Inr \<lparr>txid = ''TXID''\<rparr>"
proof (intro conjI)
  have "waitLoop silent_node ''TXID'' 100 (100 + 20) [NodeParams] =
      (Inr None, [NodeParams] @
         concat (map (\<lambda>r. [NodePending ''TXID'', NodeWaitBlock r]) [100..(100 + 20) - 1]))"
    by (rule waitLoop_exhausted_trace)
       (simp_all add: silent_node_def demo_world_def truthy_num_def truthy_str_def)
  then show "waitConfirmation silent_node ''TXID'' 20 [] =
     (Inr None, NodeParams # concat (map (\<lambda>r. [NodePending ''TXID'', NodeWaitBlock r]) [100..119]))"
    by (simp add: waitConfirmation_def getSuggestedParams_def io_bind_run io_run Let_def silent_node_def
        demo_world_def)
  show "fst (submitTransaction silent_node (One [1, 2, 3]) []) = Inr \<lparr>txid = ''TXID''\<rparr>"
    by (rule submitTransaction_unconfirmed [where sp = "\<lparr>lastRound = 100, minFee = 1000\<rparr>"])
       (simp_all add: silent_node_def demo_world_def truthy_num_def truthy_str_def)
  have "pollPending demo_world ''TXID'' 100 [NodePost [1, 2, 3], NodeParams] =
      (Inr (Some \<lparr>confirmed_round = Some 101, pool_error = Some []\<rparr>),
       [NodePost [1, 2, 3], NodeParams, NodePending ''TXID''])"
    by (simp add: pollPending_def demo_world_def truthy_num_def io_run)
  then have "fst (waitLoop demo_world ''TXID'' 100 120 [NodePost [1, 2, 3], NodeParams]) =
      Inr (Some \<lparr>confirmed_round = Some 101, pool_error = Some []\<rparr>)"
    by (subst waitLoop.simps) simp
  then obtain tr' where "waitLoop demo_world ''TXID'' 100 120 [NodePost [1, 2, 3], NodeParams] =
      (Inr (Some \<lparr>confirmed_round = Some 101, pool_error = Some []\<rparr>), tr')"
    by (metis prod.collapse)
  then show "fst (submitTransaction demo_world (One [1, 2, 3]) []) = Inr \<lparr>txid = ''TXID''\<rparr>"
    by (simp add: submitTransaction_def waitConfirmation_def getSuggestedParams_def io_bind_run io_run Let_def demo_world_def)
qed

section \<open>Grouping\<close>

lemma mapE_clearGroup:
  "\<forall>t\<in>set txns. \<exists>d. decodeTransaction l t = Inr d \<Longrightarrow>
   mapE (clearGroup l) txns =
     Inr (map (\<lambda>t. encodeTransaction l ((projr (decodeTransaction l t))\<lparr>t_grp := None\<rparr>)) txns)"
  by (induction txns) (auto simp: clearGroup_def)

lemma setGroupID_loop_map:
  "\<forall>t\<in>set txns. \<exists>d. decodeTransaction l t = Inr d \<Longrightarrow>
   setGroupID_loop l groupId txns grouped =
     Inr (grouped @ map (\<lambda>t. encodeTransaction l ((projr (decodeTransaction l t))\<lparr>t_grp := Some groupId\<rparr>)) txns)"
  by (induction txns arbitrary: grouped) auto

text \<open>
  Claim C6. For every non-empty list of encoded transactions, \<open>setGroupID\<close> returns a list
  of the same length in the same order; element \<open>i\<close> of the result is the re-encoding of
  input \<open>i\<close> with its group field set to one group id, the same for every member, which
  is the hash over the inputs' encodings (group field cleared) in the given order.
\<close>

theorem setGroupID_stamps_one_group_id:
  assumes "txns \<noteq> []" and "\<forall>t\<in>set txns. \<exists>d. decodeTransaction l t = Inr d"
  shows "\<exists>groupId grouped.
           computeGroupId l txns = Inr groupId \<and>
           groupId = groupHash l (concat (map (\<lambda>t. encodeTransaction l
                        ((projr (decodeTransaction l t))\<lparr>t_grp := None\<rparr>)) txns)) \<and>
           setGroupID l txns = Inr grouped \<and>
           length grouped = length txns \<and>
           (\<forall>i<length txns. \<exists>d. decodeTransaction l (txns ! i) = Inr d \<and>
              grouped ! i = encodeTransaction l (d\<lparr>t_grp := Some groupId\<rparr>))"
proof -
  let ?g = "groupHash l (concat (map (\<lambda>t. encodeTransaction l
                        ((projr (decodeTransaction l t))\<lparr>t_grp := None\<rparr>)) txns))"
  let ?out = "map (\<lambda>t. encodeTransaction l ((projr (decodeTransaction l t))\<lparr>t_grp := Some ?g\<rparr>)) txns"
  have c: "computeGroupId l txns = Inr ?g"
    using assms by (simp add: computeGroupId_def mapE_clearGroup)
  have s: "setGroupID l txns = Inr ?out"
    using assms(2) by (simp add: setGroupID_def c setGroupID_loop_map)
  have n: "\<forall>i<length txns. \<exists>d. decodeTransaction l (txns ! i) = Inr d \<and>
              ?out ! i = encodeTransaction l (d\<lparr>t_grp := Some ?g\<rparr>)"
  proof (intro allI impI)
    fix i assume i: "i < length txns"
    then obtain d where d: "decodeTransaction l (txns ! i) = Inr d"
      using assms(2) nth_mem by blast
    then show "\<exists>d. decodeTransaction l (txns ! i) = Inr d \<and>
              ?out ! i = encodeTransaction l (d\<lparr>t_grp := Some ?g\<rparr>)"
      using i by simp
  qed
  from c s n show ?thesis by simp
qed

theorem setGroupID_stamps_one_group_id_witness:
  "setGroupID demo_lib [[1], [2, 9]] = Inr [[1, 2, 1], [2, 2, 1]]"
proof -
  have a: "[[1], [2, 9::8 word]] \<noteq> []" by simp
  have b: "\<forall>t\<in>set [[1], [2, 9]]. \<exists>d. decodeTransaction demo_lib t = Inr d"
    by (simp add: demo_lib_def)
  from setGroupID_stamps_one_group_id [OF a b]
  obtain groupId grouped where g: "groupId = groupHash demo_lib (concat (map (\<lambda>t. encodeTransaction demo_lib
                        ((projr (decodeTransaction demo_lib t))\<lparr>t_grp := None\<rparr>)) [[1], [2, 9]]))"
    and s: "setGroupID demo_lib [[1], [2, 9]] = Inr grouped"
    and len: "length grouped = length [[1], [2, 9::8 word]]"
    and nth: "\<forall>i<length [[1], [2, 9::8 word]]. \<exists>d. decodeTransaction demo_lib ([[1], [2, 9]] ! i) = Inr d \<and>
              grouped ! i = encodeTransaction demo_lib (d\<lparr>t_grp := Some groupId\<rparr>)"
    by blast
  have gid: "groupId = [2, 1]" using g by (simp add: demo_lib_def)
  from nth have "grouped ! 0 = [1, 2, 1]" and "grouped ! 1 = [2, 2, 1]"
    by (auto simp: demo_lib_def gid)
  with len have "grouped = [[1, 2, 1], [2, 2, 1]]"
    by (cases grouped; cases "tl grouped"; auto)
  with s show ?thesis by simp
qed

text \<open>
  Claim C7. \<open>setGroupID\<close> fails with \<open>EmptyGroupError\<close> on an empty transaction sequence:
  the failure of \<open>computeGroupId\<close> is passed on before anything is re-encoded.
\<close>

theorem setGroupID_empty: "setGroupID l [] = Inl EmptyGroupError"
  by (simp add: setGroupID_def computeGroupId_def)

section \<open>What a computation may append to the trace\<close>

lemma crafted_append [simp]: "crafted (xs @ ys) = crafted xs @ crafted ys"
  by (induction xs rule: crafted.induct) auto

lemma emits_return [simp]: "emits P (io_return x)"
  by (simp add: emits_def io_run)

lemma emits_throw [simp]: "emits P (io_throw e)"
  by (simp add: emits_def io_run)

lemma emits_lift [simp]: "emits P (io_lift r)"
  by (simp add: emits_def io_run)

lemma emits_call [simp]: "P ev \<Longrightarrow> emits P (io_call ev answer)"
  by (simp add: emits_def io_run)

lemma emits_encoded [simp]: "P (Crafted tx) \<Longrightarrow> emits P (encoded l tx)"
  by (simp add: emits_def encoded_def)

lemma emits_bind:
  assumes "emits P m" and "\<And>x. emits P (f x)"
  shows "emits P (io_bind m f)"
  unfolding emits_def
proof
  fix tr
  from assms(1) obtain new1 where m: "snd (m tr) = tr @ new1" "list_all P new1"
    unfolding emits_def by blast
  show "\<exists>new. snd (io_bind m f tr) = tr @ new \<and> list_all P new"
  proof (cases "m tr")
    case (Pair r tr')
    with m have tr': "tr' = tr @ new1" by simp
    show ?thesis
    proof (cases r)
      case (Inl e)
      with Pair m show ?thesis by (auto simp: io_bind_def)
    next
      case (Inr x)
      from assms(2) [of x] obtain new2 where f: "snd (f x tr') = tr' @ new2" "list_all P new2"
        unfolding emits_def by blast
      with Pair Inr tr' m(2) show ?thesis
        by (auto simp: io_bind_def intro!: exI [of _ "new1 @ new2"])
    qed
  qed
qed

lemma emits_catch:
  assumes "emits P m" and "\<And>e. emits P (h e)"
  shows "emits P (io_catch m h)"
  unfolding emits_def
proof
  fix tr
  from assms(1) obtain new1 where m: "snd (m tr) = tr @ new1" "list_all P new1"
    unfolding emits_def by blast
  show "\<exists>new. snd (io_catch m h tr) = tr @ new \<and> list_all P new"
  proof (cases "m tr")
    case (Pair r tr')
    with m have tr': "tr' = tr @ new1" by simp
    show ?thesis
    proof (cases r)
      case (Inr x)
      with Pair m show ?thesis by (auto simp: io_catch_def)
    next
      case (Inl e)
      from assms(2) [of e] obtain new2 where f: "snd (h e tr') = tr' @ new2" "list_all P new2"
        unfolding emits_def by blast
      with Pair Inl tr' m(2) show ?thesis
        by (auto simp: io_catch_def intro!: exI [of _ "new1 @ new2"])
    qed
  qed
qed

lemma emits_snd: "emits P m \<Longrightarrow> \<exists>new. snd (m tr) = tr @ new \<and> list_all P new"
  by (simp add: emits_def)

lemma emits_pollPending: "P (NodePending txId) \<Longrightarrow> emits P (pollPending w txId r)"
  by (auto simp: emits_def pollPending_def io_run split: sum.splits)

lemma snd_pollPending: "snd (pollPending w txId r tr) = tr @ [NodePending txId]"
  by (auto simp: pollPending_def io_run split: sum.splits)

lemma emits_waitLoop_aux:
  "P (NodePending txId) \<Longrightarrow> (\<And>r. P (NodeWaitBlock r)) \<Longrightarrow>
   \<exists>new. snd (waitLoop w txId cur stop tr) = tr @ new \<and> list_all P new"
proof (induction w txId cur stop tr rule: waitLoop.induct)
  case (1 w txId currentRound stopRound tr)
  show ?case
  proof (cases "currentRound < stopRound")
    case False
    then show ?thesis by (subst waitLoop.simps) simp
  next
    case True
    obtain r1 tr1 where p: "pollPending w txId currentRound tr = (r1, tr1)"
      by (cases "pollPending w txId currentRound tr")
    have tr1: "tr1 = tr @ [NodePending txId]"
      using p snd_pollPending [of w txId currentRound tr] by simp
    show ?thesis
    proof (cases "r1 = Inr None")
      case False
      have "snd (waitLoop w txId currentRound stopRound tr) = tr1"
        using True p False by (subst waitLoop.simps) (auto split: sum.splits option.splits)
      with tr1 "1.prems"(1) show ?thesis by simp
    next
      case r1: True
      show ?thesis
      proof (cases "node_wait_block w currentRound")
        case (Inl e)
        have "snd (waitLoop w txId currentRound stopRound tr) = tr1 @ [NodeWaitBlock currentRound]"
          using True p r1 Inl by (subst waitLoop.simps) (simp add: waitForBlockAfter_def io_run)
        with tr1 "1.prems" show ?thesis by simp
      next
        case (Inr u)
        have wfb: "waitForBlockAfter w currentRound tr1 = (Inr u, tr1 @ [NodeWaitBlock currentRound])"
          by (simp add: waitForBlockAfter_def Inr io_run)
        from "1.IH" [OF True p [symmetric] r1 refl wfb [symmetric] refl "1.prems"]
        obtain new where n: "snd (waitLoop w txId (currentRound + 1) stopRound (tr1 @ [NodeWaitBlock currentRound]))
           = (tr1 @ [NodeWaitBlock currentRound]) @ new" "list_all P new"
          by blast
        have "waitLoop w txId currentRound stopRound tr =
            waitLoop w txId (currentRound + 1) stopRound (tr1 @ [NodeWaitBlock currentRound])"
          using True p r1 wfb by (subst waitLoop.simps) simp
        with n tr1 "1.prems" show ?thesis
          by (auto intro!: exI [of _ "[NodePending txId, NodeWaitBlock currentRound] @ new"])
      qed
    qed
  qed
qed

lemma emits_waitLoop:
  "P (NodePending txId) \<Longrightarrow> (\<And>r. P (NodeWaitBlock r)) \<Longrightarrow> emits P (waitLoop w txId cur stop)"
  unfolding emits_def using emits_waitLoop_aux [of P txId w cur stop] by blast

lemma emits_submitTransaction:
  assumes "\<And>ev. is_ledger_interaction ev \<Longrightarrow> P ev"
  shows "emits P (submitTransaction w t)"
  unfolding submitTransaction_def waitConfirmation_def getSuggestedParams_def Let_def
  by (intro emits_bind emits_call emits_waitLoop emits_return assms) simp_all

lemma emits_attachSignature [simp]: "emits P (attachSignature l tx s)"
  by (simp add: attachSignature_def Let_def)

lemma emits_signTxAsUser: "(\<And>b. P (SignAsUser u b)) \<Longrightarrow> emits P (signTxAsUser w l u tx)"
  unfolding signTxAsUser_def signAsUser_def by (intro emits_bind emits_call) simp_all

lemma emits_signTxAsManager: "(\<And>b. P (SignAsManager b)) \<Longrightarrow> emits P (signTxAsManager w l tx)"
  unfolding signTxAsManager_def signAsManager_def by (intro emits_bind emits_call) simp_all

lemma emits_signTxAsNamedManager:
  "(\<And>b. P (SignAsNamedManager n b)) \<Longrightarrow> emits P (signTxAsNamedManager w l n tx)"
  unfolding signTxAsNamedManager_def signAsNamedManager_def by (intro emits_bind emits_call) simp_all

lemma emits_signBySender:
  assumes "\<And>b. P (SignAsUser u b)" and "\<And>b. P (SignAsManager b)"
  shows "emits P (signBySender w l u ua ma txs acc)"
proof (induction txs arbitrary: acc)
  case Nil
  show ?case by simp
next
  case (Cons tx rest)
  show ?case
  proof (cases "decodeTransaction l tx")
    case (Inl e)
    then show ?thesis by simp
  next
    case (Inr d)
    have u: "emits P (io_bind (signTxAsUser w l u tx)
               (\<lambda>s. signBySender w l u ua ma rest (acc @ [s])))"
      by (intro emits_bind emits_signTxAsUser assms Cons.IH)
    have m: "emits P (io_bind (signTxAsManager w l tx)
               (\<lambda>s. signBySender w l u ua ma rest (acc @ [s])))"
      by (intro emits_bind emits_signTxAsManager assms Cons.IH)
    show ?thesis using Inr u m by (simp add: Let_def)
  qed
qed

section \<open>Asset transfer: what is crafted\<close>

lemma io_bind_assoc: "io_bind (io_bind m f) g = io_bind m (\<lambda>x. io_bind (f x) g)"
  by (auto simp: io_bind_def fun_eq_iff split: prod.splits sum.splits)

lemma io_bind_call_Inr: "io_bind (io_call ev (Inr x)) f = (\<lambda>tr. f x (tr @ [ev]))"
  by (simp add: io_bind_def io_call_def)

lemma io_bind_call_Inl: "io_bind (io_call ev (Inl e)) f = (\<lambda>tr. (Inl e, tr @ [ev]))"
  by (simp add: io_bind_def io_call_def)

lemma io_bind_encoded: "io_bind (encoded l tx) f = (\<lambda>tr. f (encodeTransaction l tx) (tr @ [Crafted tx]))"
  by (simp add: io_bind_def encoded_def)

lemma getAccountAsset_absent:
  "node_account_asset w a i = Inl (NodeException 404) \<Longrightarrow>
   getAccountAsset w a i = io_call (NodeAccountAsset a i) (Inr None)"
  by (simp add: getAccountAsset_def io_catch_def io_bind_def io_run fun_eq_iff)

lemma getAccountAsset_present:
  "node_account_asset w a i = Inr () \<Longrightarrow>
   getAccountAsset w a i = io_call (NodeAccountAsset a i) (Inr (Some ()))"
  by (simp add: getAccountAsset_def io_catch_def io_bind_def io_run fun_eq_iff)

lemma crafted_no_craft: "list_all no_craft evs \<Longrightarrow> crafted evs = []"
  by (induction evs rule: crafted.induct) (auto simp: no_craft_def)

lemma crafted_emits: "emits no_craft m \<Longrightarrow> crafted (snd (m tr)) = crafted tr"
  using emits_snd [of no_craft m tr] by (auto simp: crafted_no_craft)

lemma io_bind_Inr: "m tr = (Inr x, tr') \<Longrightarrow> io_bind m f tr = f x tr'"
  by (simp add: io_bind_def)

lemma io_bind_Inl: "m tr = (Inl e, tr') \<Longrightarrow> io_bind m f tr = (Inl e, tr')"
  by (simp add: io_bind_def)

lemma io_bind_if: "io_bind (if c then a else b) f = (if c then io_bind a f else io_bind b f)"
  by simp

lemma getUserInfo_run:
  "user_key w u = Inr k \<Longrightarrow> node_account w (encodeAddress l k) = Inr snap \<Longrightarrow>
   getUserInfo w l u tr =
     (Inr \<lparr>ui_user_id = u, ui_public_address = encodeAddress l k, ui_algoBalance = acc_amount snap\<rparr>,
      tr @ [GetUserPublicKey u, NodeAccount (encodeAddress l k)])"
  by (simp add: getUserInfo_def getUserPublicKey_def getAccountBalance_def Let_def io_bind_def io_run)

lemma bind_getUserInfo:
  "user_key w u = Inr k \<Longrightarrow> node_account w (encodeAddress l k) = Inr snap \<Longrightarrow>
   io_bind (getUserInfo w l u) f tr =
     f \<lparr>ui_user_id = u, ui_public_address = encodeAddress l k, ui_algoBalance = acc_amount snap\<rparr>
       (tr @ [GetUserPublicKey u, NodeAccount (encodeAddress l k)])"
  by (rule io_bind_Inr, rule getUserInfo_run)

lemma bind_getManagerPublicKey:
  "manager_key w = Inr k \<Longrightarrow> io_bind (getManagerPublicKey w) f tr = f k (tr @ [GetManagerPublicKey])"
  by (simp add: getManagerPublicKey_def io_bind_def io_run)

lemma bind_getSuggestedParams:
  "node_params w = Inr sp \<Longrightarrow> io_bind (getSuggestedParams w) f tr = f sp (tr @ [NodeParams])"
  by (simp add: getSuggestedParams_def io_bind_def io_run)

lemma bind_getAccountDetail:
  "node_account w a = Inr snap \<Longrightarrow> io_bind (getAccountDetail w a) f tr = f snap (tr @ [NodeAccount a])"
  by (simp add: getAccountDetail_def io_bind_def io_run)

lemma bind_getAccountAsset_absent:
  "node_account_asset w a i = Inl (NodeException 404) \<Longrightarrow>
   io_bind (getAccountAsset w a i) f tr = f None (tr @ [NodeAccountAsset a i])"
  by (simp add: getAccountAsset_absent io_bind_def io_run)

lemma bind_getAccountAsset_present:
  "node_account_asset w a i = Inr () \<Longrightarrow>
   io_bind (getAccountAsset w a i) f tr = f (Some ()) (tr @ [NodeAccountAsset a i])"
  by (simp add: getAccountAsset_present io_bind_def io_run)

lemma bind_craftPaymentTx:
  "io_bind (craftPaymentTx w cfg l from to amt (Some sp)) f tr =
     f (encodeTransaction l ((blankTx cfg Pay from sp)\<lparr>t_rcv := Some to, t_amt := Some amt\<rparr>))
       (tr @ [Crafted ((blankTx cfg Pay from sp)\<lparr>t_rcv := Some to, t_amt := Some amt\<rparr>)])"
  by (simp add: craftPaymentTx_def paramsOr_def encoded_def io_bind_def io_run)

lemma craftAssetTransferTx_accepted:
  "\<not> lease_rejected l lease \<Longrightarrow>
   craftAssetTransferTx w cfg l from to asset_id amt lease note (Some sp) tr =
     (Inr (encodeTransaction l (axferTx cfg l from to asset_id amt lease note sp)),
      tr @ [Crafted (axferTx cfg l from to asset_id amt lease note sp)])"
  by (simp add: craftAssetTransferTx_def paramsOr_def withLease_def addLease_def encoded_def Let_def
      io_bind_def io_run lease_rejected_def axferTx_def blankTx_def)

lemma craftAssetTransferTx_rejected:
  "lease_rejected l lease \<Longrightarrow>
   craftAssetTransferTx w cfg l from to asset_id amt lease note (Some sp) tr =
     (Inl (BadRequest ''Invalid lease format''), tr)"
  by (simp add: craftAssetTransferTx_def paramsOr_def withLease_def addLease_def encoded_def Let_def
      io_bind_def io_run lease_rejected_def)

lemma bind_craftAssetTransferTx_accepted:
  "\<not> lease_rejected l lease \<Longrightarrow>
   io_bind (craftAssetTransferTx w cfg l from to asset_id amt lease note (Some sp)) f tr =
     f (encodeTransaction l (axferTx cfg l from to asset_id amt lease note sp))
       (tr @ [Crafted (axferTx cfg l from to asset_id amt lease note sp)])"
  by (rule io_bind_Inr, rule craftAssetTransferTx_accepted)

lemma bind_craftAssetTransferTx_rejected:
  "lease_rejected l lease \<Longrightarrow>
   io_bind (craftAssetTransferTx w cfg l from to asset_id amt lease note (Some sp)) f tr =
     (Inl (BadRequest ''Invalid lease format''), tr)"
  by (rule io_bind_Inl, rule craftAssetTransferTx_rejected)

section \<open>What the services append to the trace\<close>

lemma emits_if: "emits P a \<Longrightarrow> emits P b \<Longrightarrow> emits P (if c then a else b)"
  by simp

lemma emits_nil: "emits P m \<Longrightarrow> list_all P (snd (m []))"
  using emits_snd [of P m "[]"] by auto

lemma emits_getSuggestedParams: "P NodeParams \<Longrightarrow> emits P (getSuggestedParams w)"
  by (simp add: getSuggestedParams_def)

lemma emits_getAccountDetail: "P (NodeAccount a) \<Longrightarrow> emits P (getAccountDetail w a)"
  by (simp add: getAccountDetail_def)

lemma emits_getAccountBalance: "P (NodeAccount a) \<Longrightarrow> emits P (getAccountBalance w a)"
  unfolding getAccountBalance_def by (intro emits_bind emits_call emits_return)

lemma emits_getAccountAsset: "P (NodeAccountAsset a i) \<Longrightarrow> emits P (getAccountAsset w a i)"
  unfolding getAccountAsset_def
  by (intro emits_catch emits_bind emits_call emits_return) (simp_all split: error.splits)

lemma emits_getUserPublicKey: "P (GetUserPublicKey u) \<Longrightarrow> emits P (getUserPublicKey w u)"
  by (simp add: getUserPublicKey_def)

lemma emits_getManagerPublicKey: "P GetManagerPublicKey \<Longrightarrow> emits P (getManagerPublicKey w)"
  by (simp add: getManagerPublicKey_def)

lemma emits_getNamedManagerPublicKey:
  "P (GetNamedManagerPublicKey n) \<Longrightarrow> emits P (getNamedManagerPublicKey w n)"
  by (simp add: getNamedManagerPublicKey_def)

lemma emits_getUserInfo:
  "P (GetUserPublicKey u) \<Longrightarrow> (\<And>a. P (NodeAccount a)) \<Longrightarrow> emits P (getUserInfo w l u)"
  unfolding getUserInfo_def Let_def
  by (intro emits_bind emits_getUserPublicKey emits_getAccountBalance emits_return)

lemma emits_paramsOr: "P NodeParams \<Longrightarrow> emits P (paramsOr w sp)"
  by (cases sp) (simp_all add: paramsOr_def emits_getSuggestedParams)

lemma emits_craftPaymentTx:
  "P NodeParams \<Longrightarrow> (\<And>tx. P (Crafted tx)) \<Longrightarrow> emits P (craftPaymentTx w cfg l from to amt sp)"
  unfolding craftPaymentTx_def by (intro emits_bind emits_paramsOr emits_encoded)

lemma emits_withLease: "emits P (withLease l lease tx)"
  by (simp add: withLease_def split: sum.splits)

lemma emits_craftAssetTransferTx:
  "P NodeParams \<Longrightarrow> (\<And>tx. P (Crafted tx)) \<Longrightarrow>
   emits P (craftAssetTransferTx w cfg l from to asset_id amt lease note' sp)"
  unfolding craftAssetTransferTx_def Let_def
  by (intro emits_bind emits_paramsOr emits_encoded emits_withLease)

section \<open>Leases\<close>

lemma always_fails_throw [simp]: "always_fails (io_throw e)"
  by (simp add: always_fails_def io_run)

lemma always_fails_bind: "(\<And>x. always_fails (f x)) \<Longrightarrow> always_fails (io_bind m f)"
  by (auto simp: always_fails_def io_bind_def split: prod.splits sum.splits)

lemma craftAssetTransferTx_rejected_fun:
  "lease_rejected l lease \<Longrightarrow>
   craftAssetTransferTx w cfg l from to asset_id amt lease note' (Some sp) =
     io_throw (BadRequest ''Invalid lease format'')"
  by (rule ext) (simp add: craftAssetTransferTx_rejected io_run)

lemma craftAssetClawbackTx_rejected:
  "lease_rejected l lease \<Longrightarrow>
   craftAssetClawbackTx w cfg l cb from to asset_id amt lease note' (Some sp) tr =
     (Inl (BadRequest ''Invalid lease format''), tr)"
  by (simp add: craftAssetClawbackTx_def paramsOr_def withLease_def addLease_def encoded_def Let_def
      io_bind_def io_run lease_rejected_def)

lemma transferAsset_rejected_fails:
  assumes "lease_rejected l lease"
  shows "always_fails (transferAsset w cfg l assetId userId amount lease note')"
  unfolding transferAsset_def Let_def craftAssetTransferTx_rejected_fun [OF assms] io_bind_throw
  by (intro always_fails_bind always_fails_throw)

lemma transferAsset_rejected_quiet:
  assumes "lease_rejected l lease"
  shows "emits (\<lambda>ev. \<not> is_sign_or_submit ev) (transferAsset w cfg l assetId userId amount lease note')"
  unfolding transferAsset_def Let_def craftAssetTransferTx_rejected_fun [OF assms] io_bind_throw
  by (intro emits_bind emits_if emits_getUserInfo emits_getManagerPublicKey emits_getSuggestedParams
      emits_getAccountAsset emits_getAccountDetail emits_craftPaymentTx emits_throw emits_return)
     simp_all

text \<open>
  Claim C8, as amended. For every asset-transfer or clawback crafting request that carries
  a lease: if the base64-decoded lease is not exactly 32 bytes, the crafter refuses it
  with the 400 error "Invalid lease format" and produces no transaction, so that
  \<open>transferAsset\<close> fails and nothing is signed or submitted. The lease is examined inside
  the crafter, after the ledger queries that precede crafting.
\<close>

theorem bad_lease_rejected_by_asset_crafters:
  assumes "lease_rejected l lease"
  shows "craftAssetTransferTx w cfg l from to asset_id amt lease note' (Some sp) tr =
           (Inl (BadRequest ''Invalid lease format''), tr) \<and>
         craftAssetClawbackTx w cfg l cb from to asset_id amt lease note' (Some sp) tr =
           (Inl (BadRequest ''Invalid lease format''), tr) \<and>
         isl (fst (transferAsset w cfg l assetId userId amount lease note' tr)) \<and>
         list_all (\<lambda>ev. \<not> is_sign_or_submit ev)
           (snd (transferAsset w cfg l assetId userId amount lease note' []))"
  using craftAssetTransferTx_rejected [OF assms] craftAssetClawbackTx_rejected [OF assms]
    transferAsset_rejected_fails [OF assms] emits_nil [OF transferAsset_rejected_quiet [OF assms]]
  by (simp add: always_fails_def)

lemma demo_reads:
  shows demo_user_key: "user_key demo_world ''alice'' = Inr [1]"
    and demo_manager_key: "manager_key demo_world = Inr [2]"
    and demo_account: "node_account demo_world (encodeAddress demo_lib [1]) =
          Inr \<lparr>acc_amount = 0, acc_minBalance = 100000, acc_assets = []\<rparr>"
    and demo_params: "node_params demo_world = Inr \<lparr>lastRound = 100, minFee = 1000\<rparr>"
    and demo_absent: "node_account_asset demo_world (encodeAddress demo_lib [1]) 5 = Inl (NodeException 404)"
    and demo_account': "node_account demo_world ''ALICE-ADDR'' =
          Inr \<lparr>acc_amount = 0, acc_minBalance = 100000, acc_assets = []\<rparr>"
    and demo_absent': "node_account_asset demo_world ''ALICE-ADDR'' 5 = Inl (NodeException 404)"
    and demo_alice: "encodeAddress demo_lib [1] = ''ALICE-ADDR''"
    and demo_manager: "encodeAddress demo_lib [2] = ''MANAGER-ADDR''"
  by (simp_all add: demo_world_def demo_lib_def)

lemma demo_short_lease: "lease_rejected demo_lib (Some ''AA=='')"
  by (simp add: lease_rejected_def truthy_str_def parseLease_def demo_lib_def)

theorem bad_lease_rejected_by_asset_crafters_witness:
  "craftAssetTransferTx demo_world demo_cfg demo_lib ''MANAGER-ADDR'' ''ALICE-ADDR'' 5 10 (Some ''AA=='') None
     (Some \<lparr>lastRound = 100, minFee = 1000\<rparr>) [] = (Inl (BadRequest ''Invalid lease format''), []) \<and>
   craftAssetClawbackTx demo_world demo_cfg demo_lib ''MANAGER-ADDR'' ''ALICE-ADDR'' ''MANAGER-ADDR'' 5 10
     (Some ''AA=='') None (Some \<lparr>lastRound = 100, minFee = 1000\<rparr>) [] =
     (Inl (BadRequest ''Invalid lease format''), []) \<and>
   isl (fst (transferAsset demo_world demo_cfg demo_lib 5 ''alice'' 10 (Some ''AA=='') None [])) \<and>
   list_all (\<lambda>ev. \<not> is_sign_or_submit ev)
     (snd (transferAsset demo_world demo_cfg demo_lib 5 ''alice'' 10 (Some ''AA=='') None []))"
  using bad_lease_rejected_by_asset_crafters [OF demo_short_lease] by blast

text \<open>
  Claim C8 as stated fails: a transfer request with a one-byte lease is refused only after
  the account, the suggested parameters and the asset holding have been read from the
  ledger node, and after the funding payment has been crafted.
\<close>

theorem lease_checked_after_ledger_queries:
  "transferAsset demo_world demo_cfg demo_lib 5 ''alice'' 10 (Some ''AA=='') None [] =
     (Inl (BadRequest ''Invalid lease format''),
      [GetUserPublicKey ''alice'', NodeAccount ''ALICE-ADDR'', GetManagerPublicKey, NodeParams,
       NodeAccountAsset ''ALICE-ADDR'' 5, NodeAccount ''ALICE-ADDR'',
       Crafted ((blankTx demo_cfg Pay ''MANAGER-ADDR'' \<lparr>lastRound = 100, minFee = 1000\<rparr>)
                  \<lparr>t_rcv := Some ''ALICE-ADDR'', t_amt := Some 201000\<rparr>)])"
  by (simp add: transferAsset_def Let_def io_bind_assoc
      bind_getUserInfo [OF demo_user_key demo_account] bind_getManagerPublicKey [OF demo_manager_key]
      bind_getSuggestedParams [OF demo_params] bind_getAccountAsset_absent [OF demo_absent']
      bind_getAccountDetail [OF demo_account'] bind_craftPaymentTx
      bind_craftAssetTransferTx_rejected [OF demo_short_lease] demo_alice demo_manager
      js_add_exact js_sub_exact js_number_exact)

section \<open>Asset transfer: the bundle that is grouped, signed and posted\<close>

lemma transferAsset_run:
  assumes k1: "user_key w userId = Inr userKey" and k2: "manager_key w = Inr managerKey"
    and a: "node_account w (encodeAddress l userKey) = Inr snapshot"
    and p: "node_params w = Inr sp"
    and h: "node_account_asset w (encodeAddress l userKey) assetId = Inr () \<or>
            node_account_asset w (encodeAddress l userKey) assetId = Inl (NodeException 404)"
    and acc: "\<not> lease_rejected l lease"
  shows "transferAsset w cfg l assetId userId amount lease note' tr =
     (let receiver = encodeAddress l userKey; manager = encodeAddress l managerKey;
          optInRequired = (node_account_asset w receiver assetId = Inl (NodeException 404));
          need = (if optInRequired then js_add (js_add 0 100000) (js_number (minFee sp)) else 0);
          slack = acc_amount snapshot - acc_minBalance snapshot;
          bundle =
            (if slack < need
             then [(blankTx cfg Pay manager sp)
                     \<lparr>t_rcv := Some receiver, t_amt := Some (js_sub need (js_number slack))\<rparr>]
             else []) @
            (if optInRequired then [axferTx cfg l receiver receiver assetId 0 lease None sp] else []) @
            [axferTx cfg l manager receiver assetId amount lease note' sp]
      in groupSignSubmit w l userId receiver manager (map (encodeTransaction l) bundle)
           (tr @ [GetUserPublicKey userId, NodeAccount receiver, GetManagerPublicKey, NodeParams,
                  NodeAccountAsset receiver assetId, NodeAccount receiver] @ map Crafted bundle))"
proof -
  note run = transferAsset_def groupSignSubmit_def Let_def io_bind_assoc bind_getUserInfo [OF k1 a]
    bind_getManagerPublicKey [OF k2] bind_getSuggestedParams [OF p] bind_getAccountDetail [OF a]
    bind_craftPaymentTx bind_craftAssetTransferTx_accepted [OF acc] io_run
  show ?thesis
  proof (cases "node_account_asset w (encodeAddress l userKey) assetId = Inl (NodeException 404)")
    case True
    note ab = bind_getAccountAsset_absent [OF True]
    show ?thesis
      by (cases "acc_amount snapshot - acc_minBalance snapshot
                   < js_add (js_add 0 100000) (js_number (minFee sp))")
         (simp_all add: run ab True)
  next
    case False
    with h have pr: "node_account_asset w (encodeAddress l userKey) assetId = Inr ()" by simp
    note pres = bind_getAccountAsset_present [OF pr]
    show ?thesis
      by (cases "acc_amount snapshot - acc_minBalance snapshot < 0")
         (simp_all add: run pres pr)
  qed
qed

lemma attachSignature_result:
  "fst (attachSignature l tx vaultRawSig tr) = Inr s \<Longrightarrow> \<exists>sg. s = addSignature l tx sg"
  by (auto simp: attachSignature_def Let_def io_run split: if_splits)

lemma signTxAsUser_result:
  "fst (signTxAsUser w l u tx tr) = Inr s \<Longrightarrow> \<exists>sg. s = addSignature l tx sg"
  by (cases "user_signature w u tx")
     (auto simp: signTxAsUser_def signAsUser_def io_bind_def io_run dest: attachSignature_result)

lemma signTxAsManager_result:
  "fst (signTxAsManager w l tx tr) = Inr s \<Longrightarrow> \<exists>sg. s = addSignature l tx sg"
  by (cases "manager_signature w tx")
     (auto simp: signTxAsManager_def signAsManager_def io_bind_def io_run dest: attachSignature_result)

lemma io_bind_success:
  "fst (io_bind m f tr) = Inr y \<Longrightarrow> \<exists>x tr'. m tr = (Inr x, tr') \<and> fst (f x tr') = Inr y"
  by (cases "m tr") (auto simp: io_bind_def split: sum.splits)

lemma signBySender_result:
  "fst (signBySender w l u ua ma txs acc tr) = Inr out \<Longrightarrow>
   \<exists>sigs. length sigs = length txs \<and>
          out = acc @ map (\<lambda>(tx, sg). addSignature l tx sg) (zip txs sigs)"
proof (induction txs arbitrary: acc tr)
  case Nil
  then show ?case by (simp add: io_run)
next
  case (Cons tx rest)
  from Cons.prems obtain d where d: "decodeTransaction l tx = Inr d"
    by (cases "decodeTransaction l tx") (simp_all add: io_run)
  let ?k = "\<lambda>signedTx. signBySender w l u ua ma rest (acc @ [signedTx])"
  have "\<exists>s tr'. (\<exists>sg. s = addSignature l tx sg) \<and> fst (?k s tr') = Inr out"
  proof (cases "t_snd d = ua")
    case True
    with Cons.prems d have "fst (io_bind (signTxAsUser w l u tx) ?k tr) = Inr out"
      by (simp add: Let_def)
    from io_bind_success [OF this] obtain s tr' where
      "signTxAsUser w l u tx tr = (Inr s, tr')" and k: "fst (?k s tr') = Inr out" by blast
    then have "fst (signTxAsUser w l u tx tr) = Inr s" by simp
    from signTxAsUser_result [OF this] k show ?thesis by blast
  next
    case False
    show ?thesis
    proof (cases "t_snd d = ma")
      case True
      with False Cons.prems d have "fst (io_bind (signTxAsManager w l tx) ?k tr) = Inr out"
        by (simp add: Let_def)
      from io_bind_success [OF this] obtain s tr' where
        "signTxAsManager w l tx tr = (Inr s, tr')" and k: "fst (?k s tr') = Inr out" by blast
      then have "fst (signTxAsManager w l tx tr) = Inr s" by simp
      from signTxAsManager_result [OF this] k show ?thesis by blast
    next
      case nm: False
      with False Cons.prems d show ?thesis by (simp add: Let_def io_run)
    qed
  qed
  then obtain s tr' sg where s: "s = addSignature l tx sg" and k: "fst (?k s tr') = Inr out"
    by blast
  from Cons.IH [OF k] obtain sigs where
    sigs: "length sigs = length rest"
      "out = (acc @ [s]) @ map (\<lambda>(tx, sg). addSignature l tx sg) (zip rest sigs)"
    by blast
  with s have "length (sg # sigs) = length (tx # rest) \<and>
      out = acc @ map (\<lambda>(tx, sg). addSignature l tx sg) (zip (tx # rest) (sg # sigs))"
    by simp
  then show ?case by blast
qed

lemma submitTransaction_posts:
  "\<exists>rest. snd (submitTransaction w t tr) =
     tr @ NodePost (case t of One txn \<Rightarrow> txn | Many txns \<Rightarrow> concat txns) # rest"
proof -
  let ?data = "case t of One txn \<Rightarrow> txn | Many txns \<Rightarrow> concat txns"
  show ?thesis
  proof (cases "node_post w ?data")
    case (Inl e)
    then show ?thesis by (simp add: submitTransaction_def Let_def io_bind_def io_run)
  next
    case (Inr response)
    let ?k = "io_bind (waitConfirmation w response 20) (\<lambda>_. io_return \<lparr>txid = response\<rparr>)"
    have "emits (\<lambda>ev. True) ?k"
      unfolding waitConfirmation_def getSuggestedParams_def Let_def
      by (intro emits_bind emits_call emits_waitLoop emits_return) simp_all
    from emits_snd [OF this, of "tr @ [NodePost ?data]"]
    obtain new where "snd (?k (tr @ [NodePost ?data])) = (tr @ [NodePost ?data]) @ new" by blast
    with Inr show ?thesis
      by (simp add: submitTransaction_def Let_def io_bind_def io_run)
  qed
qed

lemma groupSignSubmit_posted:
  assumes "fst (groupSignSubmit w l u ua ma unSignedTxs tr) = Inr txId"
  shows "\<exists>grouped sigs signing rest.
           setGroupID l unSignedTxs = Inr grouped \<and> length sigs = length grouped \<and>
           list_all (\<lambda>ev. vault_key_of ev = Some (UserKey u) \<or> vault_key_of ev = Some DefaultManagerKey)
             signing \<and>
           snd (groupSignSubmit w l u ua ma unSignedTxs tr) =
             tr @ signing @
             NodePost (concat (map (\<lambda>(tx, sg). addSignature l tx sg) (zip grouped sigs))) # rest"
proof -
  let ?P = "\<lambda>ev. vault_key_of ev = Some (UserKey u) \<or> vault_key_of ev = Some DefaultManagerKey"
  from io_bind_success [OF assms [unfolded groupSignSubmit_def]] obtain grouped tr1 where
    g: "io_lift (setGroupID l unSignedTxs) tr = (Inr grouped, tr1)"
    and s1: "fst (io_bind (signBySender w l u ua ma grouped [])
                (\<lambda>signedTxs.
                   io_bind (submitTransaction w (Many signedTxs)) (\<lambda>r. io_return (txid r))) tr1) = Inr txId"
    by blast
  from g have g': "setGroupID l unSignedTxs = Inr grouped" and tr1: "tr1 = tr"
    by (simp_all add: io_run)
  from io_bind_success [OF s1] obtain signed tr2 where
    sg: "signBySender w l u ua ma grouped [] tr1 = (Inr signed, tr2)" by blast
  then have "fst (signBySender w l u ua ma grouped [] tr1) = Inr signed" by simp
  from signBySender_result [OF this] obtain sigs where
    sigs: "length sigs = length grouped"
      "signed = map (\<lambda>(tx, sg). addSignature l tx sg) (zip grouped sigs)"
    by auto
  have "emits ?P (signBySender w l u ua ma grouped [])"
    by (rule emits_signBySender) simp_all
  from emits_snd [OF this, of tr1] sg tr1 obtain signing where
    signing: "tr2 = tr @ signing" "list_all ?P signing" by auto
  from submitTransaction_posts [of w "Many signed" tr2]
  obtain rest where post: "snd (submitTransaction w (Many signed) tr2) = tr2 @ NodePost (concat signed) # rest"
    by auto
  have "snd (groupSignSubmit w l u ua ma unSignedTxs tr) = tr2 @ NodePost (concat signed) # rest"
    using g sg post
    by (cases "submitTransaction w (Many signed) tr2")
       (auto simp: groupSignSubmit_def io_bind_def io_run split: sum.splits)
  with g' sigs signing show ?thesis by auto
qed

lemma submitTransaction_confirmed_at_once:
  assumes "node_post w (case t of One txn \<Rightarrow> txn | Many txns \<Rightarrow> concat txns) = Inr txId"
    and "node_params w = Inr sp"
    and "node_pending w txId (lastRound sp) = Inr info"
    and "truthy_num (confirmed_round info)"
  shows "submitTransaction w t tr =
           (Inr \<lparr>txid = txId\<rparr>,
            tr @ [NodePost (case t of One txn \<Rightarrow> txn | Many txns \<Rightarrow> concat txns), NodeParams,
                  NodePending txId])"
proof -
  have "waitLoop w txId (lastRound sp) (lastRound sp + 20) tr' =
          (Inr (Some info), tr' @ [NodePending txId])" for tr'
    by (subst waitLoop.simps) (simp add: pollPending_confirmed [OF assms(3,4)])
  then show ?thesis
    using assms(1,2)
    by (simp add: submitTransaction_def waitConfirmation_def getSuggestedParams_def Let_def
        io_bind_def io_run)
qed



lemma wire_reads:
  shows wire_alice: "encodeAddress wire_lib [1] = ''ALICE-ADDR''"
    and wire_manager: "encodeAddress wire_lib [2] = ''MANAGER-ADDR''"
    and wire_no_lease: "\<not> lease_rejected wire_lib None"
    and huge_user_key: "user_key huge_minimum_world ''alice'' = Inr [1]"
    and huge_manager_key: "manager_key huge_minimum_world = Inr [2]"
    and huge_account: "node_account huge_minimum_world (encodeAddress wire_lib [1]) =
          Inr \<lparr>acc_amount = 1, acc_minBalance = 18014398509481984, acc_assets = []\<rparr>"
    and huge_params: "node_params huge_minimum_world = Inr \<lparr>lastRound = 100, minFee = 1000\<rparr>"
    and huge_absent: "node_account_asset huge_minimum_world (encodeAddress wire_lib [1]) 5 =
          Inl (NodeException 404)"
    and huge_absent': "node_account_asset huge_minimum_world ''ALICE-ADDR'' 5 =
          Inl (NodeException 404)"
  by (simp_all add: huge_minimum_world_def demo_world_def wire_lib_def lease_rejected_def truthy_str_def)

lemma wire_groupSignSubmit:
  assumes "user_signature w = (\<lambda>i b. Inr ''vault:v1:AA=='')"
    and "manager_signature w = (\<lambda>b. Inr ''vault:v1:AA=='')"
    and "node_post w = (\<lambda>b. Inr ''TXID'')"
    and "node_params w = Inr \<lparr>lastRound = 100, minFee = 1000\<rparr>"
    and "node_pending w = (\<lambda>t r. Inr \<lparr>confirmed_round = Some (r + 1), pool_error = Some []\<rparr>)"
  shows "groupSignSubmit w wire_lib ''alice'' ''ALICE-ADDR'' ''MANAGER-ADDR'' [[0, 2], [1, 1], [1, 2]] tr =
     (Inr ''TXID'',
      tr @ [SignAsManager [0, 2, 2, 1, 1, 1, 2, 0], SignAsUser ''alice'' [1, 1, 2, 1, 1, 1, 2, 0],
            SignAsManager [1, 2, 2, 1, 1, 1, 2, 0],
            NodePost [0, 2, 2, 1, 1, 1, 2, 0, 0, 1, 1, 2, 1, 1, 1, 2, 0, 0, 1, 2, 2, 1, 1, 1, 2, 0, 0],
            NodeParams, NodePending ''TXID''])"
proof -
  have g: "setGroupID wire_lib [[0, 2], [1, 1], [1, 2]] =
      Inr [[0, 2, 2, 1, 1, 1, 2, 0], [1, 1, 2, 1, 1, 1, 2, 0], [1, 2, 2, 1, 1, 1, 2, 0]]"
    by (simp add: setGroupID_def computeGroupId_def clearGroup_def wire_lib_def)
  have sp: "split_on CHR '':'' ''vault:v1:AA=='' = [''vault'', ''v1'', ''AA=='']"
    by simp
  have a: "attachSignature wire_lib tx ''vault:v1:AA=='' = io_return (tx @ [0])" for tx
    unfolding attachSignature_def sp by (simp add: wire_lib_def)
  have su: "signTxAsUser w wire_lib u tx tr' = (Inr (tx @ [0]), tr' @ [SignAsUser u tx])" for u tx tr'
    by (simp add: signTxAsUser_def signAsUser_def assms(1) a io_bind_call_Inr io_run)
  have sm: "signTxAsManager w wire_lib tx tr' = (Inr (tx @ [0]), tr' @ [SignAsManager tx])" for tx tr'
    by (simp add: signTxAsManager_def signAsManager_def assms(2) a io_bind_call_Inr io_run)
  have d: "decodeTransaction wire_lib (ty # s # g) =
      Inr \<lparr>t_type = (if ty = 0 then Pay else if ty = 1 then Axfer else Acfg),
                      t_gen = [], t_gh = [],
                      t_snd = (if s = 1 then ''ALICE-ADDR'' else if s = 2 then ''MANAGER-ADDR''
                               else if s = 3 then ''OPS-ADDR'' else ''OTHER-ADDR''),
                      t_fee = 0, t_fv = 0, t_lv = 0, t_rcv = None, t_amt = None,
                      t_xaid = None, t_arcv = None, t_asnd = None, t_aamt = None,
                      t_apar = None, t_note = None, t_lx = None,
                      t_grp = (if g = [] then None else Some g)\<rparr>" for ty s g
    by (simp add: wire_lib_def)
  have s: "signBySender w wire_lib ''alice'' ''ALICE-ADDR'' ''MANAGER-ADDR''
      [[0, 2, 2, 1, 1, 1, 2, 0], [1, 1, 2, 1, 1, 1, 2, 0], [1, 2, 2, 1, 1, 1, 2, 0]] [] tr =
      (Inr [[0, 2, 2, 1, 1, 1, 2, 0, 0], [1, 1, 2, 1, 1, 1, 2, 0, 0], [1, 2, 2, 1, 1, 1, 2, 0, 0]],
       tr @ [SignAsManager [0, 2, 2, 1, 1, 1, 2, 0], SignAsUser ''alice'' [1, 1, 2, 1, 1, 1, 2, 0],
            SignAsManager [1, 2, 2, 1, 1, 1, 2, 0]])"
    by (simp add: d Let_def io_bind_def su sm io_run)
  have p: "node_pending w ''TXID'' (lastRound \<lparr>lastRound = 100, minFee = 1000\<rparr>) =
      Inr \<lparr>confirmed_round = Some 101, pool_error = Some []\<rparr>"
    by (simp add: assms(5))
  have c: "truthy_num (confirmed_round \<lparr>confirmed_round = Some 101, pool_error = Some []\<rparr>)"
    by (simp add: truthy_num_def)
  have n: "node_post w (case Many txs of One txn \<Rightarrow> txn | Many txns \<Rightarrow> concat txns) = Inr ''TXID''" for txs
    by (simp add: assms(3))
  note sub = submitTransaction_confirmed_at_once [OF n assms(4) p c]
  show ?thesis
    by (simp add: groupSignSubmit_def g io_bind_def io_run s sub del: signBySender.simps)
qed

lemma demo_wire_reads:
  shows demo_wire_account: "node_account demo_world (encodeAddress wire_lib [1]) =
          Inr \<lparr>acc_amount = 0, acc_minBalance = 100000, acc_assets = []\<rparr>"
    and demo_wire_absent: "node_account_asset demo_world (encodeAddress wire_lib [1]) 5 =
          Inl (NodeException 404)"
  by (simp_all add: demo_world_def)

lemma wire_bundle:
  shows "encodeTransaction wire_lib
           ((blankTx cfg Pay ''MANAGER-ADDR'' sp)\<lparr>t_rcv := Some ''ALICE-ADDR'', t_amt := Some amt\<rparr>) =
         [0, 2]"
    and "encodeTransaction wire_lib
           (axferTx cfg wire_lib ''ALICE-ADDR'' ''ALICE-ADDR'' assetId 0 None None sp) = [1, 1]"
    and "encodeTransaction wire_lib
           (axferTx cfg wire_lib ''MANAGER-ADDR'' ''ALICE-ADDR'' assetId amount None None sp) = [1, 2]"
  by (simp_all add: wire_lib_def axferTx_def blankTx_def)

lemma demo_wire_run:
  "transferAsset demo_world demo_cfg wire_lib 5 ''alice'' 10 None None [] =
     (Inr ''TXID'',
      [GetUserPublicKey ''alice'', NodeAccount ''ALICE-ADDR'', GetManagerPublicKey, NodeParams,
       NodeAccountAsset ''ALICE-ADDR'' 5, NodeAccount ''ALICE-ADDR'',
       Crafted ((blankTx demo_cfg Pay ''MANAGER-ADDR'' \<lparr>lastRound = 100, minFee = 1000\<rparr>)
                  \<lparr>t_rcv := Some ''ALICE-ADDR'', t_amt := Some 201000\<rparr>),
       Crafted (axferTx demo_cfg wire_lib ''ALICE-ADDR'' ''ALICE-ADDR'' 5 0 None None
                  \<lparr>lastRound = 100, minFee = 1000\<rparr>),
       Crafted (axferTx demo_cfg wire_lib ''MANAGER-ADDR'' ''ALICE-ADDR'' 5 10 None None
                  \<lparr>lastRound = 100, minFee = 1000\<rparr>),
       SignAsManager [0, 2, 2, 1, 1, 1, 2, 0], SignAsUser ''alice'' [1, 1, 2, 1, 1, 1, 2, 0],
       SignAsManager [1, 2, 2, 1, 1, 1, 2, 0],
       NodePost [0, 2, 2, 1, 1, 1, 2, 0, 0, 1, 1, 2, 1, 1, 1, 2, 0, 0, 1, 2, 2, 1, 1, 1, 2, 0, 0],
       NodeParams, NodePending ''TXID''])"
proof -
  have h: "node_account_asset demo_world (encodeAddress wire_lib [1]) 5 = Inr () \<or>
      node_account_asset demo_world (encodeAddress wire_lib [1]) 5 = Inl (NodeException 404)"
    by (simp add: demo_wire_absent)
  have g: "groupSignSubmit demo_world wire_lib ''alice'' ''ALICE-ADDR'' ''MANAGER-ADDR''
             [[0, 2], [1, 1], [1, 2]] tr =
     (Inr ''TXID'',
      tr @ [SignAsManager [0, 2, 2, 1, 1, 1, 2, 0], SignAsUser ''alice'' [1, 1, 2, 1, 1, 1, 2, 0],
            SignAsManager [1, 2, 2, 1, 1, 1, 2, 0],
            NodePost [0, 2, 2, 1, 1, 1, 2, 0, 0, 1, 1, 2, 1, 1, 1, 2, 0, 0, 1, 2, 2, 1, 1, 1, 2, 0, 0],
            NodeParams, NodePending ''TXID''])" for tr
    by (rule wire_groupSignSubmit) (simp_all add: demo_world_def)
  show ?thesis
    unfolding transferAsset_run [OF demo_user_key demo_manager_key demo_wire_account demo_params h
        wire_no_lease]
    by (simp add: Let_def wire_alice wire_manager demo_absent' js_add_exact js_sub_exact
        js_number_exact wire_bundle g)
qed




text \<open>
  Claim C5. In \<open>transferAsset\<close>, whenever the receiver's holding of the asset is absent, the
  bundle built contains an opt-in transaction, a zero-amount transfer of the asset from the
  receiver to itself; and the bundle is always, in this order, the funding payment from the
  manager to the receiver (when there is one), the opt-in (when there is one), and the
  primary asset transfer from the manager to the receiver. The bundle is the list of
  transactions that is crafted, then given one group id, signed member by member and
  posted: when \<open>transferAsset\<close> returns a transaction id, what it has posted is the
  concatenation of the grouped members of this very list, each with a signature attached.
  The bundle is built when the reads have succeeded and the lease, if any, is accepted.
\<close>

theorem transferAsset_bundle_order:
  assumes "user_key w userId = Inr userKey" and "manager_key w = Inr managerKey"
    and "node_account w (encodeAddress l userKey) = Inr snapshot"
    and "node_params w = Inr sp"
    and "node_account_asset w (encodeAddress l userKey) assetId = Inr () \<or>
         node_account_asset w (encodeAddress l userKey) assetId = Inl (NodeException 404)"
    and "\<not> lease_rejected l lease"
    and "receiver = encodeAddress l userKey" and "manager = encodeAddress l managerKey"
  shows "\<exists>funding optIn primary.
           transferAsset w cfg l assetId userId amount lease note' tr =
             groupSignSubmit w l userId receiver manager
               (map (encodeTransaction l) (funding @ optIn @ [primary]))
               (tr @ [GetUserPublicKey userId, NodeAccount receiver, GetManagerPublicKey, NodeParams,
                      NodeAccountAsset receiver assetId, NodeAccount receiver] @
                map Crafted (funding @ optIn @ [primary])) \<and>
           (funding = [] \<or>
            (\<exists>pay. funding = [pay] \<and> t_type pay = Pay \<and> t_snd pay = manager \<and>
                   t_rcv pay = Some receiver)) \<and>
           optIn = (if node_account_asset w receiver assetId = Inl (NodeException 404)
                    then [axferTx cfg l receiver receiver assetId 0 lease None sp] else []) \<and>
           list_all (\<lambda>opt. t_type opt = Axfer \<and> t_xaid opt = Some assetId \<and> t_snd opt = receiver \<and>
                           t_arcv opt = Some receiver \<and> t_aamt opt = None) optIn \<and>
           primary = axferTx cfg l manager receiver assetId amount lease note' sp \<and>
           t_type primary = Axfer \<and> t_xaid primary = Some assetId \<and> t_snd primary = manager \<and>
           t_arcv primary = Some receiver \<and>
           t_aamt primary = (if amount \<noteq> 0 then Some amount else None) \<and>
           (\<forall>txId. fst (transferAsset w cfg l assetId userId amount lease note' tr) = Inr txId \<longrightarrow>
              (\<exists>grouped sigs signing rest.
                 setGroupID l (map (encodeTransaction l) (funding @ optIn @ [primary])) = Inr grouped \<and>
                 length sigs = length grouped \<and>
                 list_all (\<lambda>ev. vault_key_of ev = Some (UserKey userId) \<or>
                                vault_key_of ev = Some DefaultManagerKey) signing \<and>
                 snd (transferAsset w cfg l assetId userId amount lease note' tr) =
                   tr @ [GetUserPublicKey userId, NodeAccount receiver, GetManagerPublicKey, NodeParams,
                         NodeAccountAsset receiver assetId, NodeAccount receiver] @
                   map Crafted (funding @ optIn @ [primary]) @ signing @
                   NodePost (concat (map (\<lambda>(tx, sg). addSignature l tx sg) (zip grouped sigs))) # rest))"
proof -
  let ?absent = "node_account_asset w receiver assetId = Inl (NodeException 404)"
  let ?need = "if ?absent then js_add (js_add 0 100000) (js_number (minFee sp)) else 0"
  let ?slack = "acc_amount snapshot - acc_minBalance snapshot"
  let ?funding = "if ?slack < ?need
          then [(blankTx cfg Pay manager sp)
                  \<lparr>t_rcv := Some receiver, t_amt := Some (js_sub ?need (js_number ?slack))\<rparr>]
          else []"
  let ?optIn = "if ?absent then [axferTx cfg l receiver receiver assetId 0 lease None sp] else []"
  let ?primary = "axferTx cfg l manager receiver assetId amount lease note' sp"
  let ?members = "?funding @ ?optIn @ [?primary]"
  let ?tr0 = "tr @ [GetUserPublicKey userId, NodeAccount receiver, GetManagerPublicKey, NodeParams,
                      NodeAccountAsset receiver assetId, NodeAccount receiver] @ map Crafted ?members"
  let ?run = "transferAsset w cfg l assetId userId amount lease note' tr"
  have c: "?run = groupSignSubmit w l userId receiver manager (map (encodeTransaction l) ?members) ?tr0"
    unfolding transferAsset_run [OF assms(1-6)] Let_def assms(7) [symmetric] assms(8) [symmetric] ..
  have f: "?funding = [] \<or>
               (\<exists>pay. ?funding = [pay] \<and> t_type pay = Pay \<and> t_snd pay = manager \<and>
                      t_rcv pay = Some receiver)"
    by (simp add: blankTx_def)
  have o: "list_all (\<lambda>opt. t_type opt = Axfer \<and> t_xaid opt = Some assetId \<and> t_snd opt = receiver \<and>
                           t_arcv opt = Some receiver \<and> t_aamt opt = None) ?optIn"
    by (simp add: axferTx_def blankTx_def)
  have pr: "t_type ?primary = Axfer \<and> t_xaid ?primary = Some assetId \<and> t_snd ?primary = manager \<and>
              t_arcv ?primary = Some receiver \<and>
              t_aamt ?primary = (if amount \<noteq> 0 then Some amount else None)"
    by (simp add: axferTx_def blankTx_def)
  have post: "\<forall>txId. fst ?run = Inr txId \<longrightarrow>
              (\<exists>grouped sigs signing rest.
                 setGroupID l (map (encodeTransaction l) ?members) = Inr grouped \<and>
                 length sigs = length grouped \<and>
                 list_all (\<lambda>ev. vault_key_of ev = Some (UserKey userId) \<or>
                                vault_key_of ev = Some DefaultManagerKey) signing \<and>
                 snd ?run =
                   tr @ [GetUserPublicKey userId, NodeAccount receiver, GetManagerPublicKey, NodeParams,
                         NodeAccountAsset receiver assetId, NodeAccount receiver] @
                   map Crafted ?members @ signing @
                   NodePost (concat (map (\<lambda>(tx, sg). addSignature l tx sg) (zip grouped sigs))) # rest)"
  proof (intro allI impI)
    fix txId assume "fst ?run = Inr txId"
    then have "fst (groupSignSubmit w l userId receiver manager (map (encodeTransaction l) ?members) ?tr0)
        = Inr txId" by (simp only: c)
    from groupSignSubmit_posted [OF this] show "\<exists>grouped sigs signing rest.
                 setGroupID l (map (encodeTransaction l) ?members) = Inr grouped \<and>
                 length sigs = length grouped \<and>
                 list_all (\<lambda>ev. vault_key_of ev = Some (UserKey userId) \<or>
                                vault_key_of ev = Some DefaultManagerKey) signing \<and>
                 snd ?run =
                   tr @ [GetUserPublicKey userId, NodeAccount receiver, GetManagerPublicKey, NodeParams,
                         NodeAccountAsset receiver assetId, NodeAccount receiver] @
                   map Crafted ?members @ signing @
                   NodePost (concat (map (\<lambda>(tx, sg). addSignature l tx sg) (zip grouped sigs))) # rest"
      unfolding c [symmetric] by (simp only: append_assoc)
  qed
  show ?thesis
    apply (rule exI [of _ ?funding])
    apply (rule exI [of _ ?optIn])
    apply (rule exI [of _ ?primary])
    using c f o pr post by blast
qed

theorem transferAsset_bundle_order_witness:
  "fst (transferAsset demo_world demo_cfg wire_lib 5 ''alice'' 10 None None []) = Inr ''TXID'' \<and>
   (\<exists>funding grouped sigs signing rest.
      transferAsset demo_world demo_cfg wire_lib 5 ''alice'' 10 None None [] =
        groupSignSubmit demo_world wire_lib ''alice'' ''ALICE-ADDR'' ''MANAGER-ADDR''
          (map (encodeTransaction wire_lib)
             (funding @
              [axferTx demo_cfg wire_lib ''ALICE-ADDR'' ''ALICE-ADDR'' 5 0 None None
                 \<lparr>lastRound = 100, minFee = 1000\<rparr>] @
              [axferTx demo_cfg wire_lib ''MANAGER-ADDR'' ''ALICE-ADDR'' 5 10 None None
                 \<lparr>lastRound = 100, minFee = 1000\<rparr>]))
          ([GetUserPublicKey ''alice'', NodeAccount ''ALICE-ADDR'', GetManagerPublicKey, NodeParams,
            NodeAccountAsset ''ALICE-ADDR'' 5, NodeAccount ''ALICE-ADDR''] @
           map Crafted
             (funding @
              [axferTx demo_cfg wire_lib ''ALICE-ADDR'' ''ALICE-ADDR'' 5 0 None None
                 \<lparr>lastRound = 100, minFee = 1000\<rparr>] @
              [axferTx demo_cfg wire_lib ''MANAGER-ADDR'' ''ALICE-ADDR'' 5 10 None None
                 \<lparr>lastRound = 100, minFee = 1000\<rparr>])) \<and>
      setGroupID wire_lib
        (map (encodeTransaction wire_lib)
           (funding @
            [axferTx demo_cfg wire_lib ''ALICE-ADDR'' ''ALICE-ADDR'' 5 0 None None
               \<lparr>lastRound = 100, minFee = 1000\<rparr>] @
            [axferTx demo_cfg wire_lib ''MANAGER-ADDR'' ''ALICE-ADDR'' 5 10 None None
               \<lparr>lastRound = 100, minFee = 1000\<rparr>])) = Inr grouped \<and>
      length sigs = length grouped \<and>
      snd (transferAsset demo_world demo_cfg wire_lib 5 ''alice'' 10 None None []) =
        [GetUserPublicKey ''alice'', NodeAccount ''ALICE-ADDR'', GetManagerPublicKey, NodeParams,
         NodeAccountAsset ''ALICE-ADDR'' 5, NodeAccount ''ALICE-ADDR''] @
        map Crafted
          (funding @
           [axferTx demo_cfg wire_lib ''ALICE-ADDR'' ''ALICE-ADDR'' 5 0 None None
              \<lparr>lastRound = 100, minFee = 1000\<rparr>] @
           [axferTx demo_cfg wire_lib ''MANAGER-ADDR'' ''ALICE-ADDR'' 5 10 None None
              \<lparr>lastRound = 100, minFee = 1000\<rparr>]) @
        signing @
        NodePost (concat (map (\<lambda>(tx, sg). addSignature wire_lib tx sg) (zip grouped sigs))) # rest)"
proof -
  let ?run = "transferAsset demo_world demo_cfg wire_lib 5 ''alice'' 10 None None []"
  have h: "node_account_asset demo_world (encodeAddress wire_lib [1]) 5 = Inr () \<or>
      node_account_asset demo_world (encodeAddress wire_lib [1]) 5 = Inl (NodeException 404)"
    by (simp add: demo_wire_absent)
  have ok: "fst ?run = Inr ''TXID''"
    by (simp add: demo_wire_run)
  from transferAsset_bundle_order [where cfg = demo_cfg and amount = 10 and note' = None and tr = "[]",
      OF demo_user_key demo_manager_key demo_wire_account demo_params h wire_no_lease
      wire_alice [symmetric] wire_manager [symmetric]]
  obtain funding optIn primary where
    eq: "?run =
        groupSignSubmit demo_world wire_lib ''alice'' ''ALICE-ADDR'' ''MANAGER-ADDR''
          (map (encodeTransaction wire_lib) (funding @ optIn @ [primary]))
          ([] @ [GetUserPublicKey ''alice'', NodeAccount ''ALICE-ADDR'', GetManagerPublicKey, NodeParams,
            NodeAccountAsset ''ALICE-ADDR'' 5, NodeAccount ''ALICE-ADDR''] @
           map Crafted (funding @ optIn @ [primary]))"
    and o: "optIn = (if node_account_asset demo_world ''ALICE-ADDR'' 5 = Inl (NodeException 404)
                    then [axferTx demo_cfg wire_lib ''ALICE-ADDR'' ''ALICE-ADDR'' 5 0 None None
                            \<lparr>lastRound = 100, minFee = 1000\<rparr>] else [])"
    and p: "primary = axferTx demo_cfg wire_lib ''MANAGER-ADDR'' ''ALICE-ADDR'' 5 10 None None
                        \<lparr>lastRound = 100, minFee = 1000\<rparr>"
    and post: "\<forall>txId. fst ?run = Inr txId \<longrightarrow>
              (\<exists>grouped sigs signing rest.
                 setGroupID wire_lib (map (encodeTransaction wire_lib) (funding @ optIn @ [primary])) =
                   Inr grouped \<and>
                 length sigs = length grouped \<and>
                 list_all (\<lambda>ev. vault_key_of ev = Some (UserKey ''alice'') \<or>
                                vault_key_of ev = Some DefaultManagerKey) signing \<and>
                 snd ?run =
                   [] @ [GetUserPublicKey ''alice'', NodeAccount ''ALICE-ADDR'', GetManagerPublicKey,
                         NodeParams, NodeAccountAsset ''ALICE-ADDR'' 5, NodeAccount ''ALICE-ADDR''] @
                   map Crafted (funding @ optIn @ [primary]) @ signing @
                   NodePost (concat (map (\<lambda>(tx, sg). addSignature wire_lib tx sg) (zip grouped sigs))) #
                   rest)"
    by blast
  from o have o': "optIn = [axferTx demo_cfg wire_lib ''ALICE-ADDR'' ''ALICE-ADDR'' 5 0 None None
                            \<lparr>lastRound = 100, minFee = 1000\<rparr>]"
    by (simp add: demo_absent')
  from post ok obtain grouped sigs signing rest where
    "setGroupID wire_lib (map (encodeTransaction wire_lib) (funding @ optIn @ [primary])) = Inr grouped"
    and "length sigs = length grouped"
    and "snd ?run =
                   [] @ [GetUserPublicKey ''alice'', NodeAccount ''ALICE-ADDR'', GetManagerPublicKey,
                         NodeParams, NodeAccountAsset ''ALICE-ADDR'' 5, NodeAccount ''ALICE-ADDR''] @
                   map Crafted (funding @ optIn @ [primary]) @ signing @
                   NodePost (concat (map (\<lambda>(tx, sg). addSignature wire_lib tx sg) (zip grouped sigs))) #
                   rest"
    by blast
  with eq have "\<exists>funding grouped sigs signing rest.
      ?run =
        groupSignSubmit demo_world wire_lib ''alice'' ''ALICE-ADDR'' ''MANAGER-ADDR''
          (map (encodeTransaction wire_lib) (funding @ optIn @ [primary]))
          ([GetUserPublicKey ''alice'', NodeAccount ''ALICE-ADDR'', GetManagerPublicKey, NodeParams,
            NodeAccountAsset ''ALICE-ADDR'' 5, NodeAccount ''ALICE-ADDR''] @
           map Crafted (funding @ optIn @ [primary])) \<and>
      setGroupID wire_lib (map (encodeTransaction wire_lib) (funding @ optIn @ [primary])) =
        Inr grouped \<and>
      length sigs = length grouped \<and>
      snd ?run =
        [GetUserPublicKey ''alice'', NodeAccount ''ALICE-ADDR'', GetManagerPublicKey, NodeParams,
         NodeAccountAsset ''ALICE-ADDR'' 5, NodeAccount ''ALICE-ADDR''] @
        map Crafted (funding @ optIn @ [primary]) @ signing @
        NodePost (concat (map (\<lambda>(tx, sg). addSignature wire_lib tx sg) (zip grouped sigs))) # rest"
    unfolding append_Nil by blast
  with ok show ?thesis
    unfolding o' p by (rule conjI)
qed

section \<open>Simple transfer: sender routing\<close>

lemma ledger_no_vault_key: "is_ledger_interaction ev \<Longrightarrow> vault_key_of ev = None"
  by (cases ev) simp_all

lemma emits_transferAlgoToAddress:
  "emits (\<lambda>ev. vault_key_of ev = None \<or>
               vault_key_of ev = Some (if fromUserId = ''manager'' then DefaultManagerKey
                                       else UserKey fromUserId))
     (transferAlgoToAddress w cfg l fromUserId toAddress amt lease note')"
proof (cases "fromUserId = ''manager''")
  case True
  let ?P = "\<lambda>ev. vault_key_of ev = None \<or> vault_key_of ev = Some DefaultManagerKey"
  have m1: "emits ?P (getManagerPublicKey w)"
    by (rule emits_getManagerPublicKey) simp
  have m2: "\<And>tx. emits ?P (signTxAsManager w l tx)"
    by (rule emits_signTxAsManager) simp
  have m3: "emits ?P (getSuggestedParams w)"
    by (rule emits_getSuggestedParams) simp
  have m4: "\<And>a b c d. emits ?P (craftPaymentTx w cfg l a b c d)"
    by (rule emits_craftPaymentTx) simp_all
  have m5: "\<And>t. emits ?P (submitTransaction w t)"
    by (rule emits_submitTransaction) (simp add: ledger_no_vault_key)
  show ?thesis
    unfolding transferAlgoToAddress_def if_P [OF True]
    by (intro emits_bind emits_catch m1 m2 m3 m4 m5 emits_return emits_throw)
next
  case False
  let ?P = "\<lambda>ev. vault_key_of ev = None \<or> vault_key_of ev = Some (UserKey fromUserId)"
  have m1: "emits ?P (getUserInfo w l fromUserId)"
    by (rule emits_getUserInfo) simp_all
  have m2: "\<And>tx. emits ?P (signTxAsUser w l fromUserId tx)"
    by (rule emits_signTxAsUser) simp
  have m3: "emits ?P (getSuggestedParams w)"
    by (rule emits_getSuggestedParams) simp
  have m4: "\<And>a b c d. emits ?P (craftPaymentTx w cfg l a b c d)"
    by (rule emits_craftPaymentTx) simp_all
  have m5: "\<And>t. emits ?P (submitTransaction w t)"
    by (rule emits_submitTransaction) (simp add: ledger_no_vault_key)
  show ?thesis
    unfolding transferAlgoToAddress_def if_not_P [OF False]
    by (intro emits_bind emits_catch m1 m2 m3 m4 m5 emits_return emits_throw)
qed

lemma fromAddress_manager:
  "io_bind (io_catch (io_bind (getManagerPublicKey w) (\<lambda>k. io_return (encodeAddress l k)))
              (\<lambda>error. io_throw (F error))) f tr =
     (case manager_key w of
        Inl e \<Rightarrow> (Inl (F e), tr @ [GetManagerPublicKey])
      | Inr k \<Rightarrow> f (encodeAddress l k) (tr @ [GetManagerPublicKey]))"
  by (simp add: io_catch_def io_bind_def getManagerPublicKey_def io_run split: sum.splits)

lemma fromAddress_user:
  "io_bind (io_catch (io_bind (getUserInfo w l u) (\<lambda>info. io_return (ui_public_address info)))
              (\<lambda>error. io_throw (F error))) f tr =
     (case user_key w u of
        Inl e \<Rightarrow> (Inl (F e), tr @ [GetUserPublicKey u])
      | Inr k \<Rightarrow>
          (case node_account w (encodeAddress l k) of
             Inl e \<Rightarrow> (Inl (F e), tr @ [GetUserPublicKey u, NodeAccount (encodeAddress l k)])
           | Inr snap \<Rightarrow> f (encodeAddress l k) (tr @ [GetUserPublicKey u, NodeAccount (encodeAddress l k)])))"
  by (simp add: io_catch_def io_bind_def getUserInfo_def getUserPublicKey_def getAccountBalance_def
      Let_def io_run split: sum.splits)

lemma signTxAsManager_run:
  "signTxAsManager w l b tr =
     (case manager_signature w b of
        Inl e \<Rightarrow> (Inl e, tr @ [SignAsManager b])
      | Inr s \<Rightarrow> (if length (split_on CHR '':'' s) \<le> 2 then Inl TypeError
                  else Inr (addSignature l b (base64_decode l (split_on CHR '':'' s ! 2))),
                  tr @ [SignAsManager b]))"
  by (simp add: signTxAsManager_def signAsManager_def attachSignature_def Let_def io_bind_def io_run
      split: sum.splits)

lemma signTxAsUser_run:
  "signTxAsUser w l u b tr =
     (case user_signature w u b of
        Inl e \<Rightarrow> (Inl e, tr @ [SignAsUser u b])
      | Inr s \<Rightarrow> (if length (split_on CHR '':'' s) \<le> 2 then Inl TypeError
                  else Inr (addSignature l b (base64_decode l (split_on CHR '':'' s ! 2))),
                  tr @ [SignAsUser u b]))"
  by (simp add: signTxAsUser_def signAsUser_def attachSignature_def Let_def io_bind_def io_run
      split: sum.splits)

lemma snd_io_catch_throw: "snd (io_catch m (\<lambda>e. io_throw (F e)) tr) = snd (m tr)"
  by (cases "m tr") (simp add: io_catch_def io_run split: sum.splits)

lemma fst_io_catch_throw_Inr: "fst (io_catch m (\<lambda>e. io_throw (F e)) tr) = Inr x \<Longrightarrow> fst (m tr) = Inr x"
  by (cases "m tr") (simp add: io_catch_def io_run split: sum.splits)

lemma submitTransaction_result:
  "fst (submitTransaction w t tr) = Inr r \<Longrightarrow>
   node_post w (case t of One txn \<Rightarrow> txn | Many txns \<Rightarrow> concat txns) = Inr (txid r)"
  by (cases "node_post w (case t of One txn \<Rightarrow> txn | Many txns \<Rightarrow> concat txns)")
     (auto simp: submitTransaction_def Let_def io_bind_def io_run split: sum.splits prod.splits)

text \<open>The signing and posting steps of a simple transfer, from the signer's answer on.\<close>

lemma sign_and_submit_failed:
  assumes "signer tr = (Inl e, tr @ [request])"
  shows "snd (io_catch
           (io_bind signer
              (\<lambda>signedTx. io_bind (submitTransaction w (One signedTx)) (\<lambda>r. io_return (txid r))))
           (\<lambda>error. io_throw (F error)) tr) = tr @ [request]"
  by (simp add: snd_io_catch_throw io_bind_def assms)

lemma sign_and_submit_signed:
  assumes "signer tr = (Inr signedTx, tr @ [request])"
  shows "\<exists>rest. snd (io_catch
           (io_bind signer
              (\<lambda>signedTx. io_bind (submitTransaction w (One signedTx)) (\<lambda>r. io_return (txid r))))
           (\<lambda>error. io_throw (F error)) tr) = tr @ [request, NodePost signedTx] @ rest"
    and "fst (io_catch
           (io_bind signer
              (\<lambda>signedTx. io_bind (submitTransaction w (One signedTx)) (\<lambda>r. io_return (txid r))))
           (\<lambda>error. io_throw (F error)) tr) = Inr txId \<Longrightarrow> node_post w signedTx = Inr txId"
proof -
  let ?sub = "submitTransaction w (One signedTx) (tr @ [request])"
  have run: "io_bind signer
              (\<lambda>signedTx. io_bind (submitTransaction w (One signedTx)) (\<lambda>r. io_return (txid r))) tr =
        (case fst ?sub of Inl e \<Rightarrow> Inl e | Inr r \<Rightarrow> Inr (txid r), snd ?sub)"
    by (cases ?sub) (simp add: io_bind_def assms io_run split: sum.splits)
  from submitTransaction_posts [of w "One signedTx" "tr @ [request]"]
  obtain rest where "snd ?sub = (tr @ [request]) @ NodePost signedTx # rest" by auto
  then have "snd (io_catch
           (io_bind signer
              (\<lambda>signedTx. io_bind (submitTransaction w (One signedTx)) (\<lambda>r. io_return (txid r))))
           (\<lambda>error. io_throw (F error)) tr) = tr @ [request, NodePost signedTx] @ rest"
    by (simp add: snd_io_catch_throw run)
  then show "\<exists>rest. snd (io_catch
           (io_bind signer
              (\<lambda>signedTx. io_bind (submitTransaction w (One signedTx)) (\<lambda>r. io_return (txid r))))
           (\<lambda>error. io_throw (F error)) tr) = tr @ [request, NodePost signedTx] @ rest" by blast
  assume "fst (io_catch
           (io_bind signer
              (\<lambda>signedTx. io_bind (submitTransaction w (One signedTx)) (\<lambda>r. io_return (txid r))))
           (\<lambda>error. io_throw (F error)) tr) = Inr txId"
  from fst_io_catch_throw_Inr [OF this] obtain r where "fst ?sub = Inr r" and "txid r = txId"
    by (auto simp: run split: sum.splits)
  with submitTransaction_result [of w "One signedTx" "tr @ [request]" r]
  show "node_post w signedTx = Inr txId" by simp
qed

lemma transferAlgo_run:
  assumes key: "(if fromUserId = ''manager'' then manager_key w else user_key w fromUserId) = Inr k"
    and acct: "fromUserId = ''manager'' \<or> node_account w (encodeAddress l k) = Inr snapshot"
    and params: "node_params w = Inr sp"
  shows "transferAlgoToAddress w cfg l fromUserId toAddress amt lease note' tr =
     (let payTx = (blankTx cfg Pay (encodeAddress l k) sp)\<lparr>t_rcv := Some toAddress, t_amt := Some amt\<rparr>
      in io_catch
           (io_bind
              (if fromUserId = ''manager'' then signTxAsManager w l (encodeTransaction l payTx)
               else signTxAsUser w l fromUserId (encodeTransaction l payTx))
              (\<lambda>signedTx. io_bind (submitTransaction w (One signedTx)) (\<lambda>r. io_return (txid r))))
           (\<lambda>error. io_throw (FailedSign fromUserId error))
           (tr @ (if fromUserId = ''manager'' then [GetManagerPublicKey]
                  else [GetUserPublicKey fromUserId, NodeAccount (encodeAddress l k)]) @
            [NodeParams, Crafted payTx]))"
proof (cases "fromUserId = ''manager''")
  case True
  with key have k: "manager_key w = Inr k" by simp
  show ?thesis
    unfolding transferAlgoToAddress_def if_P [OF True] fromAddress_manager
    by (simp add: k bind_getSuggestedParams [OF params] bind_craftPaymentTx Let_def)
next
  case False
  with key acct have k: "user_key w fromUserId = Inr k"
    and a: "node_account w (encodeAddress l k) = Inr snapshot" by simp_all
  show ?thesis
    unfolding transferAlgoToAddress_def if_not_P [OF False] fromAddress_user
    by (simp add: k a bind_getSuggestedParams [OF params] bind_craftPaymentTx Let_def)
qed

lemma transferAlgo_first_call:
  "\<exists>rest. snd (transferAlgoToAddress w cfg l fromUserId toAddress amt lease note' tr) =
     tr @ (if fromUserId = ''manager'' then GetManagerPublicKey else GetUserPublicKey fromUserId) # rest"
proof -
  let ?k = "\<lambda>signer fromAddress.
          io_bind (getSuggestedParams w) (\<lambda>sp.
          io_bind (craftPaymentTx w cfg l fromAddress toAddress amt (Some sp)) (\<lambda>payTx.
            io_catch
              (io_bind (signer payTx)
                 (\<lambda>signedTx.
                    io_bind (submitTransaction w (One signedTx)) (\<lambda>r. io_return (txid r))))
              (\<lambda>error. io_throw (FailedSign fromUserId error))))"
  have e: "emits (\<lambda>ev. True) (?k signer a)" if "\<And>b. emits (\<lambda>ev. True) (signer b)" for signer a
    by (intro emits_bind emits_catch emits_getSuggestedParams emits_craftPaymentTx that
        emits_submitTransaction emits_return emits_throw) simp_all
  have ex: "\<exists>rest. snd (?k signer a (tr @ pre # more)) = tr @ pre # rest"
    if "\<And>b. emits (\<lambda>ev. True) (signer b)" for signer a pre more
    using emits_snd [where tr = "tr @ pre # more", OF e [where signer = signer and a = a, OF that]] by auto
  show ?thesis
  proof (cases "fromUserId = ''manager''")
    case True
    have m: "emits (\<lambda>ev. True) (signTxAsManager w l b)" for b
      by (rule emits_signTxAsManager) simp
    show ?thesis
      unfolding transferAlgoToAddress_def if_P [OF True] fromAddress_manager
      using ex [of "signTxAsManager w l" _ GetManagerPublicKey "[]", OF m]
      by (cases "manager_key w") simp_all
  next
    case False
    have u: "emits (\<lambda>ev. True) (signTxAsUser w l fromUserId b)" for b
      by (rule emits_signTxAsUser) simp
    show ?thesis
    proof (cases "user_key w fromUserId")
      case (Inl err)
      then show ?thesis
        unfolding transferAlgoToAddress_def if_not_P [OF False] fromAddress_user by simp
    next
      case (Inr key)
      show ?thesis
      proof (cases "node_account w (encodeAddress l key)")
        case (Inl err)
        with Inr show ?thesis
          unfolding transferAlgoToAddress_def if_not_P [OF False] fromAddress_user by simp
      next
        case snap: (Inr snapshot)
        from Inr snap show ?thesis
          unfolding transferAlgoToAddress_def if_not_P [OF False] fromAddress_user
          using ex [of "signTxAsUser w l fromUserId" "encodeAddress l key" "GetUserPublicKey fromUserId"
              "[NodeAccount (encodeAddress l key)]", OF u]
          by simp
      qed
    qed
  qed
qed

lemma transferAlgo_signing:
  assumes key: "(if fromUserId = ''manager'' then manager_key w else user_key w fromUserId) = Inr k"
    and acct: "fromUserId = ''manager'' \<or> \<not> isl (node_account w (encodeAddress l k))"
    and params: "node_params w = Inr sp"
    and payTx: "payTx = (blankTx cfg Pay (encodeAddress l k) sp)
                        \<lparr>t_rcv := Some toAddress, t_amt := Some amt\<rparr>"
    and payload: "payload = encodeTransaction l payTx"
    and reads: "reads = (if fromUserId = ''manager'' then [GetManagerPublicKey]
                       else [GetUserPublicKey fromUserId, NodeAccount (encodeAddress l k)])"
    and request: "request = (if fromUserId = ''manager'' then SignAsManager payload
                             else SignAsUser fromUserId payload)"
    and answer: "answer = (if fromUserId = ''manager'' then manager_signature w payload
                        else user_signature w fromUserId payload)"
  shows "\<exists>rest. snd (transferAlgoToAddress w cfg l fromUserId toAddress amt lease note' []) =
                  reads @ [NodeParams, Crafted payTx, request] @ rest"
    and "answer = Inr s \<Longrightarrow> 2 < length (split_on CHR '':'' s) \<Longrightarrow>
         \<exists>rest. snd (transferAlgoToAddress w cfg l fromUserId toAddress amt lease note' []) =
                  reads @ [NodeParams, Crafted payTx, request,
                           NodePost (addSignature l payload (base64_decode l (split_on CHR '':'' s ! 2)))] @
                  rest"
    and "answer = Inr s \<Longrightarrow> 2 < length (split_on CHR '':'' s) \<Longrightarrow>
         fst (transferAlgoToAddress w cfg l fromUserId toAddress amt lease note' []) = Inr txId \<Longrightarrow>
         node_post w (addSignature l payload (base64_decode l (split_on CHR '':'' s ! 2))) = Inr txId"
proof -
  let ?via = "fromUserId = ''manager''"
  let ?run = "transferAlgoToAddress w cfg l fromUserId toAddress amt lease note' []"
  from acct obtain snapshot where
    acct': "?via \<or> node_account w (encodeAddress l k) = Inr snapshot"
    by (cases "node_account w (encodeAddress l k)") auto
  let ?signer = "if ?via then signTxAsManager w l payload else signTxAsUser w l fromUserId payload"
  let ?tr0 = "reads @ [NodeParams, Crafted payTx]"
  let ?tail = "io_catch
         (io_bind ?signer
            (\<lambda>signedTx. io_bind (submitTransaction w (One signedTx)) (\<lambda>r. io_return (txid r))))
         (\<lambda>error. io_throw (FailedSign fromUserId error)) ?tr0"
  have run: "?run = ?tail"
    using transferAlgo_run [OF key acct' params, of cfg toAddress amt lease note' "[]"]
    by (simp add: Let_def payTx payload reads)
  have signer: "?signer ?tr0 =
      (case answer of
         Inl e \<Rightarrow> (Inl e, ?tr0 @ [request])
       | Inr s \<Rightarrow> (if length (split_on CHR '':'' s) \<le> 2 then Inl TypeError
                   else Inr (addSignature l payload (base64_decode l (split_on CHR '':'' s ! 2))),
                   ?tr0 @ [request]))"
    unfolding request answer by (cases ?via) (simp_all add: signTxAsManager_run signTxAsUser_run)
  show "\<exists>rest. snd ?run = reads @ [NodeParams, Crafted payTx, request] @ rest"
  proof (cases "fst (?signer ?tr0)")
    case (Inl e)
    then have "?signer ?tr0 = (Inl e, ?tr0 @ [request])"
      by (auto simp: signer split: sum.splits if_splits)
    from sign_and_submit_failed [where w = w and F = "FailedSign fromUserId" and signer = ?signer
        and tr = ?tr0, OF this]
    have "snd ?tail = reads @ [NodeParams, Crafted payTx, request] @ []" by simp
    then have "snd ?run = reads @ [NodeParams, Crafted payTx, request] @ []" by (simp only: run)
    then show ?thesis by (rule exI)
  next
    case (Inr signedTx)
    then have "?signer ?tr0 = (Inr signedTx, ?tr0 @ [request])"
      by (auto simp: signer split: sum.splits if_splits)
    from sign_and_submit_signed(1) [where w = w and F = "FailedSign fromUserId" and signer = ?signer
        and tr = ?tr0, OF this]
    obtain rest where "snd ?tail = ?tr0 @ [request, NodePost signedTx] @ rest" by blast
    then have "snd ?tail = reads @ [NodeParams, Crafted payTx, request] @ (NodePost signedTx # rest)"
      by simp
    then have "snd ?run = reads @ [NodeParams, Crafted payTx, request] @ (NodePost signedTx # rest)"
      by (simp only: run)
    then show ?thesis by (rule exI)
  qed
  assume s: "answer = Inr s" and wf: "2 < length (split_on CHR '':'' s)"
  let ?signed = "addSignature l payload (base64_decode l (split_on CHR '':'' s ! 2))"
  have sg: "?signer ?tr0 = (Inr ?signed, ?tr0 @ [request])"
    using s wf by (simp add: signer)
  from sign_and_submit_signed(1) [where w = w and F = "FailedSign fromUserId" and signer = ?signer
      and tr = ?tr0, OF sg]
  obtain rest where "snd ?tail = ?tr0 @ [request, NodePost ?signed] @ rest" by blast
  then have "snd ?tail = reads @ [NodeParams, Crafted payTx, request, NodePost ?signed] @ rest"
    by simp
  then have "snd ?run = reads @ [NodeParams, Crafted payTx, request, NodePost ?signed] @ rest"
    by (simp only: run)
  then show "\<exists>rest. snd ?run = reads @ [NodeParams, Crafted payTx, request, NodePost ?signed] @ rest"
    by (rule exI)
  assume "fst ?run = Inr txId"
  then have "fst ?tail = Inr txId" by (simp only: run)
  from sign_and_submit_signed(2) [where w = w and F = "FailedSign fromUserId" and signer = ?signer
      and tr = ?tr0, OF sg this]
  show "node_post w ?signed = Inr txId" .
qed

text \<open>
  Claim C10. In \<open>transferAlgoToAddress\<close> the sender is routed by equality of \<open>fromUserId\<close>
  with the literal \<open>manager\<close>. Exactly when \<open>fromUserId\<close> is \<open>manager\<close>, the first call of
  the transfer reads the default manager key, the payment that is crafted has the address
  of that key as its sender, the signature is requested from the default manager key for
  the encoded payment, and what is posted is that payment with that signature attached.
  For every other \<open>fromUserId\<close> the same holds with the key of user \<open>fromUserId\<close>. Every
  vault call of a run, key lookup and signature alike, uses the routed key and no other,
  so that no run ever uses the user key named \<open>manager\<close>.
\<close>

theorem transferAlgo_sender_routing:
  "let viaManager = (fromUserId = ''manager'');
       route = (if viaManager then DefaultManagerKey else UserKey fromUserId);
       senderKey = (if viaManager then manager_key w else user_key w fromUserId);
       run = transferAlgoToAddress w cfg l fromUserId toAddress amt lease note' [];
       tr = snd run
   in list_all (\<lambda>ev. vault_key_of ev = None \<or> vault_key_of ev = Some route) tr \<and>
      list_all (\<lambda>ev. vault_key_of ev \<noteq> Some (UserKey ''manager'')) tr \<and>
      (\<exists>rest. tr = (if viaManager then GetManagerPublicKey else GetUserPublicKey fromUserId) # rest) \<and>
      (\<forall>k sp. senderKey = Inr k \<and>
               (viaManager \<or> \<not> isl (node_account w (encodeAddress l k))) \<and>
               node_params w = Inr sp \<longrightarrow>
         (let payTx = (blankTx cfg Pay (encodeAddress l k) sp)
                        \<lparr>t_rcv := Some toAddress, t_amt := Some amt\<rparr>;
              payload = encodeTransaction l payTx;
              reads = (if viaManager then [GetManagerPublicKey]
                       else [GetUserPublicKey fromUserId, NodeAccount (encodeAddress l k)]);
              request = (if viaManager then SignAsManager payload else SignAsUser fromUserId payload);
              answer = (if viaManager then manager_signature w payload
                        else user_signature w fromUserId payload)
          in (\<exists>rest. tr = reads @ [NodeParams, Crafted payTx, request] @ rest) \<and>
             (\<forall>s. answer = Inr s \<and> 2 < length (split_on CHR '':'' s) \<longrightarrow>
                (let signedTx = addSignature l payload (base64_decode l (split_on CHR '':'' s ! 2))
                 in (\<exists>rest. tr = reads @ [NodeParams, Crafted payTx, request, NodePost signedTx] @ rest) \<and>
                    (\<forall>txId. fst run = Inr txId \<longrightarrow> node_post w signedTx = Inr txId)))))"
proof -
  let ?via = "fromUserId = ''manager''"
  let ?route = "if ?via then DefaultManagerKey else UserKey fromUserId"
  let ?tr = "snd (transferAlgoToAddress w cfg l fromUserId toAddress amt lease note' [])"
  have r: "list_all (\<lambda>ev. vault_key_of ev = None \<or> vault_key_of ev = Some ?route) ?tr"
    by (rule emits_nil [OF emits_transferAlgoToAddress])
  have "?route \<noteq> UserKey ''manager''" by simp
  with r have n: "list_all (\<lambda>ev. vault_key_of ev \<noteq> Some (UserKey ''manager'')) ?tr"
    by (auto simp: list_all_iff)
  have f: "\<exists>rest. ?tr = (if ?via then GetManagerPublicKey else GetUserPublicKey fromUserId) # rest"
    using transferAlgo_first_call [of w cfg l fromUserId toAddress amt lease note' "[]"] by simp
  show ?thesis
    unfolding Let_def
    apply (intro conjI allI impI)
    subgoal by (rule r)
    subgoal by (rule n)
    subgoal by (rule f)
    subgoal by (elim conjE) (rule transferAlgo_signing(1) [OF _ _ _ refl refl refl refl refl])
    subgoal by (elim conjE) (rule transferAlgo_signing(2) [OF _ _ _ refl refl refl refl refl])
    subgoal by (elim conjE) (rule transferAlgo_signing(3) [OF _ _ _ refl refl refl refl refl])
    done
qed

lemma demo_signing:
  shows demo_signature: "split_on CHR '':'' ''vault:v1:AA=='' = [''vault'', ''v1'', ''AA=='']"
    and demo_attach: "addSignature demo_lib tx (base64_decode demo_lib ''AA=='') = tx @ [0]"
    and demo_manager_signature: "manager_signature demo_world b = Inr ''vault:v1:AA==''"
    and demo_user_signature: "user_signature demo_world u b = Inr ''vault:v1:AA==''"
  by (simp_all add: demo_world_def demo_lib_def)

lemma demo_manager_transfer:
  "fst (transferAlgoToAddress demo_world demo_cfg demo_lib ''manager'' ''ALICE-ADDR'' 7 None None []) =
     Inr ''TXID''"
proof -
  have k: "(if ''manager'' = ''manager'' then manager_key demo_world else user_key demo_world ''manager'')
      = Inr [2]"
    by (simp add: demo_manager_key)
  have p: "node_pending demo_world ''TXID'' (lastRound \<lparr>lastRound = 100, minFee = 1000\<rparr>) =
      Inr \<lparr>confirmed_round = Some 101, pool_error = Some []\<rparr>"
    by (simp add: demo_world_def)
  have c: "truthy_num (confirmed_round \<lparr>confirmed_round = Some 101, pool_error = Some []\<rparr>)"
    by (simp add: truthy_num_def)
  have n: "node_post demo_world (case One tx of One txn \<Rightarrow> txn | Many txns \<Rightarrow> concat txns) = Inr ''TXID''"
    for tx
    by (simp add: demo_world_def)
  note sub = submitTransaction_confirmed_at_once [OF n demo_params p c]
  show ?thesis
    unfolding transferAlgo_run [where snapshot = undefined, OF k disjI1 [OF refl] demo_params]
    by (simp add: Let_def io_catch_def io_bind_def signTxAsManager_run demo_manager_signature
        demo_signature sub io_run)
qed

theorem transferAlgo_sender_routing_witness:
  "fst (transferAlgoToAddress demo_world demo_cfg demo_lib ''manager'' ''ALICE-ADDR'' 7 None None []) =
     Inr ''TXID'' \<and>
   node_post demo_world
     (encodeTransaction demo_lib
        ((blankTx demo_cfg Pay ''MANAGER-ADDR'' \<lparr>lastRound = 100, minFee = 1000\<rparr>)
           \<lparr>t_rcv := Some ''ALICE-ADDR'', t_amt := Some 7\<rparr>) @ [0]) = Inr ''TXID'' \<and>
   (\<exists>rest. snd (transferAlgoToAddress demo_world demo_cfg demo_lib ''manager'' ''ALICE-ADDR'' 7 None None []) =
      [GetManagerPublicKey, NodeParams,
       Crafted ((blankTx demo_cfg Pay ''MANAGER-ADDR'' \<lparr>lastRound = 100, minFee = 1000\<rparr>)
                  \<lparr>t_rcv := Some ''ALICE-ADDR'', t_amt := Some 7\<rparr>),
       SignAsManager
         (encodeTransaction demo_lib
            ((blankTx demo_cfg Pay ''MANAGER-ADDR'' \<lparr>lastRound = 100, minFee = 1000\<rparr>)
               \<lparr>t_rcv := Some ''ALICE-ADDR'', t_amt := Some 7\<rparr>)),
       NodePost
         (encodeTransaction demo_lib
            ((blankTx demo_cfg Pay ''MANAGER-ADDR'' \<lparr>lastRound = 100, minFee = 1000\<rparr>)
               \<lparr>t_rcv := Some ''ALICE-ADDR'', t_amt := Some 7\<rparr>) @ [0])] @ rest) \<and>
   (\<exists>rest. snd (transferAlgoToAddress demo_world demo_cfg demo_lib ''alice'' ''OPS-ADDR'' 7 None None []) =
      [GetUserPublicKey ''alice'', NodeAccount ''ALICE-ADDR'', NodeParams,
       Crafted ((blankTx demo_cfg Pay ''ALICE-ADDR'' \<lparr>lastRound = 100, minFee = 1000\<rparr>)
                  \<lparr>t_rcv := Some ''OPS-ADDR'', t_amt := Some 7\<rparr>),
       SignAsUser ''alice''
         (encodeTransaction demo_lib
            ((blankTx demo_cfg Pay ''ALICE-ADDR'' \<lparr>lastRound = 100, minFee = 1000\<rparr>)
               \<lparr>t_rcv := Some ''OPS-ADDR'', t_amt := Some 7\<rparr>)),
       NodePost
         (encodeTransaction demo_lib
            ((blankTx demo_cfg Pay ''ALICE-ADDR'' \<lparr>lastRound = 100, minFee = 1000\<rparr>)
               \<lparr>t_rcv := Some ''OPS-ADDR'', t_amt := Some 7\<rparr>) @ [0])] @ rest)"
proof -
  let ?sp = "\<lparr>lastRound = 100, minFee = 1000\<rparr>"
  note m = transferAlgo_sender_routing [of "''manager''" demo_world demo_cfg demo_lib "''ALICE-ADDR''" 7
      None None, unfolded Let_def, THEN conjunct2, THEN conjunct2, THEN conjunct2, rule_format,
      of "[2]" ?sp]
  have mc: "(if ''manager'' = ''manager'' then manager_key demo_world else user_key demo_world ''manager'')
        = Inr [2] \<and>
      (''manager'' = ''manager'' \<or> \<not> isl (node_account demo_world (encodeAddress demo_lib [2]))) \<and>
      node_params demo_world = Inr ?sp"
    by (simp add: demo_manager_key demo_params)
  note m2 = m [OF mc, THEN conjunct2, rule_format, of "''vault:v1:AA==''", THEN conjunct1]
  note m3 = m [OF mc, THEN conjunct2, rule_format, of "''vault:v1:AA==''", THEN conjunct2, rule_format,
      OF _ demo_manager_transfer]
  have post: "node_post demo_world
     (encodeTransaction demo_lib
        ((blankTx demo_cfg Pay ''MANAGER-ADDR'' ?sp)
           \<lparr>t_rcv := Some ''ALICE-ADDR'', t_amt := Some 7\<rparr>) @ [0]) = Inr ''TXID''"
    using m3 by (simp add: demo_signature demo_attach demo_manager_signature demo_manager)
  have a: "\<exists>rest. snd (transferAlgoToAddress demo_world demo_cfg demo_lib ''manager'' ''ALICE-ADDR'' 7 None None []) =
      [GetManagerPublicKey, NodeParams,
       Crafted ((blankTx demo_cfg Pay ''MANAGER-ADDR'' ?sp)
                  \<lparr>t_rcv := Some ''ALICE-ADDR'', t_amt := Some 7\<rparr>),
       SignAsManager
         (encodeTransaction demo_lib
            ((blankTx demo_cfg Pay ''MANAGER-ADDR'' ?sp)
               \<lparr>t_rcv := Some ''ALICE-ADDR'', t_amt := Some 7\<rparr>)),
       NodePost
         (encodeTransaction demo_lib
            ((blankTx demo_cfg Pay ''MANAGER-ADDR'' ?sp)
               \<lparr>t_rcv := Some ''ALICE-ADDR'', t_amt := Some 7\<rparr>) @ [0])] @ rest"
    using m2 by (simp add: demo_signature demo_attach demo_manager_signature demo_manager)
  note u = transferAlgo_sender_routing [of "''alice''" demo_world demo_cfg demo_lib "''OPS-ADDR''" 7
      None None, unfolded Let_def, THEN conjunct2, THEN conjunct2, THEN conjunct2, rule_format,
      of "[1]" ?sp]
  have uc: "(if ''alice'' = ''manager'' then manager_key demo_world else user_key demo_world ''alice'')
        = Inr [1] \<and>
      (''alice'' = ''manager'' \<or> \<not> isl (node_account demo_world (encodeAddress demo_lib [1]))) \<and>
      node_params demo_world = Inr ?sp"
    by (simp add: demo_user_key demo_params demo_account)
  note u2 = u [OF uc, THEN conjunct2, rule_format, of "''vault:v1:AA==''", THEN conjunct1]
  have b: "\<exists>rest. snd (transferAlgoToAddress demo_world demo_cfg demo_lib ''alice'' ''OPS-ADDR'' 7 None None []) =
      [GetUserPublicKey ''alice'', NodeAccount ''ALICE-ADDR'', NodeParams,
       Crafted ((blankTx demo_cfg Pay ''ALICE-ADDR'' ?sp)
                  \<lparr>t_rcv := Some ''OPS-ADDR'', t_amt := Some 7\<rparr>),
       SignAsUser ''alice''
         (encodeTransaction demo_lib
            ((blankTx demo_cfg Pay ''ALICE-ADDR'' ?sp)
               \<lparr>t_rcv := Some ''OPS-ADDR'', t_amt := Some 7\<rparr>)),
       NodePost
         (encodeTransaction demo_lib
            ((blankTx demo_cfg Pay ''ALICE-ADDR'' ?sp)
               \<lparr>t_rcv := Some ''OPS-ADDR'', t_amt := Some 7\<rparr>) @ [0])] @ rest"
    using u2 by (simp add: demo_signature demo_attach demo_user_signature demo_alice)
  from demo_manager_transfer post a b show ?thesis by (intro conjI)
qed

section \<open>Group submission: validation of the declared identities\<close>

lemma actualAddress_run:
  "actualAddress w l u tr =
     (case custody_key w u of Inl e \<Rightarrow> Inl e | Inr k \<Rightarrow> Inr (encodeAddress l k), tr @ [lookup_event u])"
  by (simp add: actualAddress_def custody_key_def lookup_event_def getUserPublicKey_def
      getNamedManagerPublicKey_def io_bind_def io_run split: sum.splits)

lemma is_key_lookup_lookup_event [simp]: "is_key_lookup (lookup_event u)"
  by (simp add: lookup_event_def)

lemma emits_actualAddress: "emits is_key_lookup (actualAddress w l u)"
  by (simp add: emits_def actualAddress_run)

lemma emits_collectUsers: "emits is_key_lookup (collectUsers w l txs users)"
proof (induction txs arbitrary: users)
  case Nil
  show ?case by simp
next
  case (Cons tx rest)
  show ?case
    by (cases "receiver_of (x_txn tx)")
       (auto simp: Let_def intro!: emits_bind emits_actualAddress emits_return Cons.IH)
qed

lemma collectUsers_entries:
  "fst (collectUsers w l txs users tr) = Inr us \<Longrightarrow>
   set users \<subseteq> set us \<and>
   (\<forall>tx\<in>set txs. \<forall>u\<in>set (declared_users tx).
      \<exists>k. custody_key w u = Inr k \<and> checkOf u (encodeAddress l k) \<in> set us)"
proof (induction txs arbitrary: users tr)
  case Nil
  then show ?case by (simp add: io_run)
next
  case (Cons tx rest)
  let ?s = "sender_of (x_txn tx)"
  obtain ks where ks: "custody_key w ?s = Inr ks"
    using Cons.prems
    by (cases "custody_key w ?s") (simp_all add: Let_def io_bind_def actualAddress_run)
  show ?case
  proof (cases "receiver_of (x_txn tx)")
    case None
    let ?users = "users @ [checkOf ?s (encodeAddress l ks)]"
    have "fst (collectUsers w l rest ?users (tr @ [lookup_event ?s])) = Inr us"
      using Cons.prems ks None
      by (simp add: Let_def io_bind_def actualAddress_run io_run)
    from Cons.IH [OF this] ks None show ?thesis
      by (auto simp: declared_users_def)
  next
    case (Some r)
    obtain kr where kr: "custody_key w r = Inr kr"
      using Cons.prems ks Some
      by (cases "custody_key w r") (simp_all add: Let_def io_bind_def actualAddress_run io_run)
    let ?users = "users @ [checkOf ?s (encodeAddress l ks)] @ [checkOf r (encodeAddress l kr)]"
    have "fst (collectUsers w l rest ?users (tr @ [lookup_event ?s] @ [lookup_event r])) = Inr us"
      using Cons.prems ks kr Some
      by (simp add: Let_def io_bind_def actualAddress_run io_run)
    from Cons.IH [OF this] ks kr Some show ?thesis
      by (auto simp: declared_users_def)
  qed
qed

lemma collectUsers_resolves:
  "custody_resolves w txs \<Longrightarrow> \<not> isl (fst (collectUsers w l txs users tr))"
proof (induction txs arbitrary: users tr)
  case Nil
  show ?case by (simp add: io_run)
next
  case (Cons tx rest)
  let ?s = "sender_of (x_txn tx)"
  from Cons.prems obtain ks where ks: "custody_key w ?s = Inr ks"
    by (cases "custody_key w ?s") (simp_all add: custody_resolves_def)
  from Cons.prems have rest: "custody_resolves w rest"
    by (simp add: custody_resolves_def)
  show ?case
  proof (cases "receiver_of (x_txn tx)")
    case None
    with ks Cons.IH [OF rest] show ?thesis
      by (simp add: Let_def io_bind_def actualAddress_run io_run)
  next
    case (Some r)
    from Cons.prems Some obtain kr where kr: "custody_key w r = Inr kr"
      by (cases "custody_key w r") (simp_all add: custody_resolves_def)
    with ks Some Cons.IH [OF rest] show ?thesis
      by (simp add: Let_def io_bind_def actualAddress_run io_run)
  qed
qed

lemma key_lookup_quiet:
  "list_all is_key_lookup evs \<Longrightarrow>
   crafted evs = [] \<and> list_all (\<lambda>ev. \<not> is_sign_or_submit ev) evs \<and>
   list_all (\<lambda>ev. \<not> is_ledger_interaction ev) evs"
proof (induction evs)
  case Nil
  show ?case by simp
next
  case (Cons ev evs)
  then show ?case by (cases ev) simp_all
qed

lemma sendGroup_mismatch:
  assumes "tx \<in> set (transactions group')" and "u \<in> set (declared_users tx)"
    and "custody_key w u = Inr key" and "encodeAddress l key \<noteq> u_public_address u"
  shows "isl (fst (sendGroup w cfg l group' []))"
    and "list_all is_key_lookup (snd (sendGroup w cfg l group' []))"
    and "custody_resolves w (transactions group') \<Longrightarrow> fst (sendGroup w cfg l group' []) = Inl InvalidUsers"
proof -
  obtain r tr where c: "collectUsers w l (transactions group') [] [] = (r, tr)"
    by (cases "collectUsers w l (transactions group') [] []")
  have tr: "list_all is_key_lookup tr"
    using emits_nil [OF emits_collectUsers, of w l "transactions group'" "[]"] c by simp
  have res: "sendGroup w cfg l group' [] = (case r of Inl e \<Rightarrow> Inl e | Inr us \<Rightarrow> Inl InvalidUsers, tr)"
  proof (cases r)
    case (Inl e)
    with c show ?thesis by (simp add: sendGroup_def io_bind_def)
  next
    case (Inr us)
    with c have "fst (collectUsers w l (transactions group') [] []) = Inr us" by simp
    from collectUsers_entries [OF this] assms
    have "checkOf u (encodeAddress l key) \<in> set us" by fastforce
    moreover have "c_actual_address (checkOf u (encodeAddress l key)) \<noteq>
        c_public_address (checkOf u (encodeAddress l key))"
      using assms(4) by (simp add: checkOf_def)
    ultimately have "\<not> list_all (\<lambda>user. c_actual_address user = c_public_address user) us"
      unfolding list_all_iff by blast
    with c Inr show ?thesis by (simp add: sendGroup_def io_bind_def Let_def io_run)
  qed
  show "isl (fst (sendGroup w cfg l group' []))"
    by (simp add: res split: sum.splits)
  show "list_all is_key_lookup (snd (sendGroup w cfg l group' []))"
    by (simp add: res tr)
  show "fst (sendGroup w cfg l group' []) = Inl InvalidUsers" if "custody_resolves w (transactions group')"
    using collectUsers_resolves [OF that, of l "[]" "[]"] c
    by (cases r) (simp_all add: res)
qed

lemma collectUsers_first_failure:
  "first_unresolved w txs = Some u \<Longrightarrow>
   fst (collectUsers w l txs users tr) = Inl (projl (custody_key w u))"
proof (induction txs arbitrary: users tr)
  case Nil
  then show ?case by (simp add: first_unresolved_def)
next
  case (Cons tx rest)
  let ?s = "sender_of (x_txn tx)"
  show ?case
  proof (cases "custody_key w ?s")
    case (Inl e)
    with Cons.prems have "u = ?s"
      by (simp add: first_unresolved_def declared_users_def)
    with Inl show ?thesis
      by (simp add: Let_def io_bind_def actualAddress_run)
  next
    case ks: (Inr k)
    show ?thesis
    proof (cases "receiver_of (x_txn tx)")
      case None
      with ks Cons.prems have "first_unresolved w rest = Some u"
        by (simp add: first_unresolved_def declared_users_def)
      from Cons.IH [OF this] ks None show ?thesis
        by (simp add: Let_def io_bind_def actualAddress_run io_run)
    next
      case (Some r)
      show ?thesis
      proof (cases "custody_key w r")
        case (Inl e)
        with ks Some Cons.prems have "u = r"
          by (simp add: first_unresolved_def declared_users_def)
        with Inl ks Some show ?thesis
          by (simp add: Let_def io_bind_def actualAddress_run io_run)
      next
        case kr: (Inr k')
        with ks Some Cons.prems have "first_unresolved w rest = Some u"
          by (simp add: first_unresolved_def declared_users_def)
        from Cons.IH [OF this] ks kr Some show ?thesis
          by (simp add: Let_def io_bind_def actualAddress_run io_run)
      qed
    qed
  qed
qed

lemma custody_resolves_iff: "custody_resolves w txs = (first_unresolved w txs = None)"
  by (induction txs)
     (auto simp: custody_resolves_def first_unresolved_def declared_users_def find_None_iff
        split: option.splits)

lemma sendGroup_mismatch_error:
  assumes "tx \<in> set (transactions group')" and "u \<in> set (declared_users tx)"
    and "custody_key w u = Inr key" and "encodeAddress l key \<noteq> u_public_address u"
  shows "fst (sendGroup w cfg l group' []) =
           Inl (case first_unresolved w (transactions group') of
                  None \<Rightarrow> InvalidUsers
                | Some v \<Rightarrow> projl (custody_key w v))"
proof (cases "first_unresolved w (transactions group')")
  case None
  then have "custody_resolves w (transactions group')" by (simp add: custody_resolves_iff)
  from sendGroup_mismatch(3) [OF assms this] None show ?thesis by simp
next
  case (Some v)
  from collectUsers_first_failure [OF this, of l "[]" "[]"] Some show ?thesis
    by (cases "collectUsers w l (transactions group') [] []") (simp add: sendGroup_def io_bind_def)
qed

text \<open>
  Claim C2, as amended. For every group passed to \<open>sendGroup\<close> in which some transaction's
  declared sender claims a \<open>public_address\<close> that differs from the address derived from the
  key the vault returns for that sender, \<open>sendGroup\<close> fails before any transaction is
  crafted: the only calls made are key lookups, and nothing is crafted, signed or
  submitted. The failure is the address-mismatch error \<open>Invalid users\<close> when the vault
  resolves every identity the group declares; otherwise it is the vault's error for the
  first declared identity that the vault does not resolve.
\<close>

theorem sendGroup_rejects_spoofed_sender:
  assumes "tx \<in> set (transactions group')"
    and "custody_key w (sender_of (x_txn tx)) = Inr key"
    and "encodeAddress l key \<noteq> u_public_address (sender_of (x_txn tx))"
  shows "fst (sendGroup w cfg l group' []) =
           Inl (case first_unresolved w (transactions group') of
                  None \<Rightarrow> InvalidUsers
                | Some u \<Rightarrow> projl (custody_key w u)) \<and>
         (custody_resolves w (transactions group') \<longrightarrow>
            fst (sendGroup w cfg l group' []) = Inl InvalidUsers) \<and>
         list_all is_key_lookup (snd (sendGroup w cfg l group' [])) \<and>
         crafted (snd (sendGroup w cfg l group' [])) = [] \<and>
         list_all (\<lambda>ev. \<not> is_sign_or_submit ev) (snd (sendGroup w cfg l group' []))"
proof -
  have u: "sender_of (x_txn tx) \<in> set (declared_users tx)"
    by (simp add: declared_users_def)
  from sendGroup_mismatch [OF assms(1) u assms(2,3), of cfg]
    sendGroup_mismatch_error [OF assms(1) u assms(2,3), of cfg]
    key_lookup_quiet [of "snd (sendGroup w cfg l group' [])"]
  show ?thesis by simp
qed

theorem sendGroup_rejects_spoofed_sender_witness:
  "first_unresolved demo_world (transactions spoofed_sender_group) = None \<and>
   fst (sendGroup demo_world demo_cfg demo_lib spoofed_sender_group []) = Inl InvalidUsers \<and>
   list_all is_key_lookup (snd (sendGroup demo_world demo_cfg demo_lib spoofed_sender_group [])) \<and>
   crafted (snd (sendGroup demo_world demo_cfg demo_lib spoofed_sender_group [])) = [] \<and>
   list_all (\<lambda>ev. \<not> is_sign_or_submit ev)
     (snd (sendGroup demo_world demo_cfg demo_lib spoofed_sender_group []))"
proof -
  let ?tx = "hd (transactions spoofed_sender_group)"
  have 1: "?tx \<in> set (transactions spoofed_sender_group)"
    by (simp add: spoofed_sender_group_def)
  have 2: "custody_key demo_world (sender_of (x_txn ?tx)) = Inr [1]"
    by (simp add: spoofed_sender_group_def sender_of_def custody_key_def demo_world_def)
  have 3: "encodeAddress demo_lib [1] \<noteq> u_public_address (sender_of (x_txn ?tx))"
    by (simp add: spoofed_sender_group_def sender_of_def demo_lib_def)
  have 4: "first_unresolved demo_world (transactions spoofed_sender_group) = None"
    by (simp add: first_unresolved_def declared_users_def spoofed_sender_group_def sender_of_def
        receiver_of_def custody_key_def demo_world_def)
  from sendGroup_rejects_spoofed_sender [OF 1 2 3, of demo_cfg] 4
  show ?thesis by simp
qed

text \<open>
  Claim C2 as stated fails: in a group whose first sender \<open>alice\<close> claims the address of
  \<open>ops\<close> and whose second sender is unknown to the vault, \<open>sendGroup\<close> fails with the
  vault's error for the unknown sender, not with the address-mismatch error.
\<close>

theorem spoofed_sender_reported_as_vault_error:
  "custody_key demo_world (sender_of (x_txn (hd (transactions spoofed_and_unknown_group)))) = Inr [1] \<and>
   encodeAddress demo_lib [1] = ''ALICE-ADDR'' \<and>
   u_public_address (sender_of (x_txn (hd (transactions spoofed_and_unknown_group)))) = ''OPS-ADDR'' \<and>
   sendGroup demo_world demo_cfg demo_lib spoofed_and_unknown_group [] =
     (Inl (VaultException 404),
      [GetUserPublicKey ''alice'', GetNamedManagerPublicKey ''ops'', GetUserPublicKey ''bob''])"
  by (simp add: sendGroup_def spoofed_and_unknown_group_def sender_of_def receiver_of_def
      custody_key_def Let_def io_bind_def actualAddress_run lookup_event_def demo_world_def
      demo_lib_def io_run)

text \<open>
  Claim C9. \<open>sendGroup\<close> validates receivers as well as senders: for every group with a
  transaction whose receiver claims a \<open>public_address\<close> that differs from the address
  derived from the key the vault returns for that receiver, \<open>sendGroup\<close> fails (with
  \<open>Invalid users\<close> whenever the vault resolves every declared identity) before any
  transaction is crafted, signed or submitted, whatever the senders claim; the witness is a
  group whose only sender's claim is correct.
\<close>

theorem sendGroup_validates_receivers:
  assumes "tx \<in> set (transactions group')"
    and "receiver_of (x_txn tx) = Some receiver"
    and "custody_key w receiver = Inr key"
    and "encodeAddress l key \<noteq> u_public_address receiver"
  shows "isl (fst (sendGroup w cfg l group' [])) \<and>
         (custody_resolves w (transactions group') \<longrightarrow>
            fst (sendGroup w cfg l group' []) = Inl InvalidUsers) \<and>
         list_all is_key_lookup (snd (sendGroup w cfg l group' [])) \<and>
         crafted (snd (sendGroup w cfg l group' [])) = [] \<and>
         list_all (\<lambda>ev. \<not> is_sign_or_submit ev) (snd (sendGroup w cfg l group' []))"
proof -
  have u: "receiver \<in> set (declared_users tx)"
    using assms(2) by (simp add: declared_users_def)
  from sendGroup_mismatch [OF assms(1) u assms(3,4), of cfg]
    key_lookup_quiet [of "snd (sendGroup w cfg l group' [])"]
  show ?thesis by simp
qed

theorem sendGroup_validates_receivers_witness:
  "list_all (\<lambda>tx. custody_key demo_world (sender_of (x_txn tx)) =
                    Inr [1] \<and> encodeAddress demo_lib [1] = u_public_address (sender_of (x_txn tx)))
     (transactions spoofed_receiver_group) \<and>
   fst (sendGroup demo_world demo_cfg demo_lib spoofed_receiver_group []) = Inl InvalidUsers \<and>
   list_all is_key_lookup (snd (sendGroup demo_world demo_cfg demo_lib spoofed_receiver_group [])) \<and>
   crafted (snd (sendGroup demo_world demo_cfg demo_lib spoofed_receiver_group [])) = [] \<and>
   list_all (\<lambda>ev. \<not> is_sign_or_submit ev)
     (snd (sendGroup demo_world demo_cfg demo_lib spoofed_receiver_group []))"
proof -
  let ?tx = "hd (transactions spoofed_receiver_group)"
  let ?r = "\<lparr>u_id = ''ops'', u_public_address = ''ALICE-ADDR'', u_type = ManagerT\<rparr>"
  have 0: "list_all (\<lambda>tx. custody_key demo_world (sender_of (x_txn tx)) =
                    Inr [1] \<and> encodeAddress demo_lib [1] = u_public_address (sender_of (x_txn tx)))
     (transactions spoofed_receiver_group)"
    by (simp add: spoofed_receiver_group_def sender_of_def custody_key_def demo_world_def demo_lib_def)
  have 1: "?tx \<in> set (transactions spoofed_receiver_group)"
    by (simp add: spoofed_receiver_group_def)
  have 2: "receiver_of (x_txn ?tx) = Some ?r"
    by (simp add: spoofed_receiver_group_def receiver_of_def)
  have 3: "custody_key demo_world ?r = Inr [3]"
    by (simp add: custody_key_def demo_world_def)
  have 4: "encodeAddress demo_lib [3] \<noteq> u_public_address ?r"
    by (simp add: demo_lib_def)
  have 5: "custody_resolves demo_world (transactions spoofed_receiver_group)"
    by (simp add: custody_resolves_def spoofed_receiver_group_def sender_of_def receiver_of_def
        custody_key_def demo_world_def)
  from sendGroup_validates_receivers [OF 1 2 3 4, of demo_cfg] 0 5
  show ?thesis by simp
qed

end
